theory Spec2Isabelle
  imports Complex_Main "HOL-Library.Sublist"
begin

section \<open>JavaScript values and string primitives\<close>

text \<open>
  The values that reach the validator from the tabular source are strings, or are
  missing: an absent column reads \<open>undefined\<close>, and \<open>formatAppsheetDate\<close> returns
  \<open>null\<close> for a date it cannot split. Strings are byte lists; the accented letters of the
  Spanish messages are written as their UTF-8 bytes. \<open>trim\<close> and \<open>toUpperCase\<close> are
  modelled on ASCII.
\<close>

datatype jsval = JUndefined | JNull | JStr string

fun truthy :: "jsval \<Rightarrow> bool" where
  "truthy (JStr s) = (s \<noteq> [])"
| "truthy JUndefined = False"
| "truthy JNull = False"

text \<open>\<open>String(v)\<close>, which is also what a template literal does to an interpolated value.\<close>

fun String_js :: "jsval \<Rightarrow> string" where
  "String_js (JStr s) = s"
| "String_js JUndefined = ''undefined''"
| "String_js JNull = ''null''"

definition isWhiteSpace :: "char \<Rightarrow> bool" where
  "isWhiteSpace c = (c \<in> set [CHR 0x09, CHR 0x0A, CHR 0x0B, CHR 0x0C, CHR 0x0D, CHR 0x20])"

definition trim_js :: "string \<Rightarrow> string" where
  "trim_js s = rev (dropWhile isWhiteSpace (rev (dropWhile isWhiteSpace s)))"

definition upperChar :: "char \<Rightarrow> char" where
  "upperChar c =
     (if (97::nat) \<le> of_char c \<and> of_char c \<le> (122::nat)
      then char_of (of_char c - (32::nat)) else c)"

definition toUpperCase_js :: "string \<Rightarrow> string" where
  "toUpperCase_js s = map upperChar s"

text \<open>\<open>s.split(sep)\<close> for a one-character separator: never the empty list.\<close>

fun split_js :: "char \<Rightarrow> string \<Rightarrow> string list" where
  "split_js sep [] = [[]]"
| "split_js sep (c # cs) =
     (if c = sep then [] # split_js sep cs
      else (c # hd (split_js sep cs)) # tl (split_js sep cs))"

text \<open>\<open>xs.join(sep)\<close>.\<close>

fun join_js :: "string \<Rightarrow> string list \<Rightarrow> string" where
  "join_js sep [] = []"
| "join_js sep [x] = x"
| "join_js sep (x # y # ys) = x @ sep @ join_js sep (y # ys)"

text \<open>The decimal digits of a natural number, as a template literal prints an integer.\<close>

fun digitsOf :: "nat \<Rightarrow> string" where
  "digitsOf n =
     (if n < 10 then [char_of (48 + n)]
      else digitsOf (n div 10) @ [char_of (48 + n mod 10)])"

definition a_acute :: string where "a_acute = [CHR 0xC3, CHR 0xA1]"
definition i_acute :: string where "i_acute = [CHR 0xC3, CHR 0xAD]"
definition u_acute :: string where "u_acute = [CHR 0xC3, CHR 0xBA]"

text \<open>A string between double quotes, as the messages show a value.\<close>

definition quoted :: "string \<Rightarrow> string" where
  "quoted s = [CHR 0x22] @ s @ [CHR 0x22]"

subsection \<open>Reading numbers out of strings\<close>

text \<open>
  \<open>Number(s)\<close> and \<open>parseFloat(s)\<close> share the decimal literal of the language: an optional
  sign, digits with an optional fraction (or a fraction alone), and an optional exponent
  that only counts when it has a digit. \<open>scanDecimal\<close> reads the longest such prefix and
  returns its value with the rest of the string. The value is the exact real the digits
  denote, where JavaScript has the nearest double. A result \<open>None\<close> stands for \<open>NaN\<close> and
  for the two infinities, which the callers below cannot tell apart.
\<close>

definition isDigit :: "char \<Rightarrow> bool" where
  "isDigit c = ((48::nat) \<le> of_char c \<and> of_char c \<le> (57::nat))"

definition digitVal :: "char \<Rightarrow> nat" where
  "digitVal c = of_char c - 48"

definition digitsValue :: "string \<Rightarrow> nat" where
  "digitsValue ds = foldl (\<lambda>a c. 10 * a + digitVal c) 0 ds"

definition scanSign :: "string \<Rightarrow> bool \<times> string" where
  "scanSign s =
     (case s of
        [] \<Rightarrow> (False, s)
      | c # r \<Rightarrow> if c = CHR ''-'' then (True, r)
                 else if c = CHR ''+'' then (False, r) else (False, s))"

definition scanExponent :: "string \<Rightarrow> real \<times> string" where
  "scanExponent s =
     (case s of
        [] \<Rightarrow> (1, s)
      | c # r \<Rightarrow>
          if c = CHR ''e'' \<or> c = CHR ''E'' then
            (let (neg, r1) = scanSign r; ds = takeWhile isDigit r1 in
             if ds = [] then (1, s)
             else (if neg then 1 / 10 ^ digitsValue ds else 10 ^ digitsValue ds,
                   dropWhile isDigit r1))
          else (1, s))"

definition scanDecimal :: "string \<Rightarrow> (real \<times> string) option" where
  "scanDecimal s =
     (let (neg, s1) = scanSign s;
          ip = takeWhile isDigit s1;
          r1 = dropWhile isDigit s1;
          (fp, r2) =
            (case r1 of
               [] \<Rightarrow> ([], r1)
             | c # r \<Rightarrow>
                 if c = CHR ''.'' \<and> (ip \<noteq> [] \<or> (r \<noteq> [] \<and> isDigit (hd r)))
                 then (takeWhile isDigit r, dropWhile isDigit r)
                 else ([], r1))
      in if ip = [] \<and> fp = [] then None
         else (let mant = real (digitsValue (ip @ fp)) / 10 ^ length fp;
                   (ex, r3) = scanExponent r2
               in Some ((if neg then - mant else mant) * ex, r3)))"

text \<open>Literals with a radix prefix (\<open>0x\<close>, \<open>0o\<close>, \<open>0b\<close>), which \<open>Number\<close> alone reads.\<close>

definition radixDigit :: "char \<Rightarrow> nat option" where
  "radixDigit c =
     (let n = (of_char c :: nat) in
      if 48 \<le> n \<and> n \<le> 57 then Some (n - 48)
      else if 97 \<le> n \<and> n \<le> 102 then Some (n - 87)
      else if 65 \<le> n \<and> n \<le> 70 then Some (n - 55)
      else None)"

definition radixValue :: "nat \<Rightarrow> string \<Rightarrow> real option" where
  "radixValue b ds =
     (if ds \<noteq> [] \<and> (\<forall>c \<in> set ds. case radixDigit c of None \<Rightarrow> False | Some v \<Rightarrow> v < b)
      then Some (real (foldl (\<lambda>a c. b * a + the (radixDigit c)) 0 ds))
      else None)"

definition Number_js :: "string \<Rightarrow> real option" where
  "Number_js s =
     (let t = trim_js s in
      if t = [] then Some 0
      else if length t \<ge> 2 \<and> hd t = CHR ''0'' \<and> t ! 1 \<in> set ''xX'' then radixValue 16 (drop 2 t)
      else if length t \<ge> 2 \<and> hd t = CHR ''0'' \<and> t ! 1 \<in> set ''oO'' then radixValue 8 (drop 2 t)
      else if length t \<ge> 2 \<and> hd t = CHR ''0'' \<and> t ! 1 \<in> set ''bB'' then radixValue 2 (drop 2 t)
      else (case scanDecimal t of
              Some (v, []) \<Rightarrow> Some v
            | _ \<Rightarrow> None))"

definition parseFloat_js :: "string \<Rightarrow> real option" where
  "parseFloat_js s = map_option fst (scanDecimal (dropWhile isWhiteSpace s))"

subsection \<open>Dates\<close>

text \<open>
  \<open>new Date(year, month, day)\<close> after ECMA-262: the year and the month overflow into each
  other, the day counts on from the first of the month, a year from 0 to 99 means
  1900 + year, and a time value beyond 8.64e15 ms is the invalid date. The three numbers
  name a midnight of the local time of the process; the time value of the date is that
  local time moved to UTC, \<open>UTC(t) = t - offset\<close>, with the offset the host's time zone has
  at the local time \<open>t\<close>. The time zone is a parameter of everything that makes a date: the
  function from a local time to the offset then in force, both in milliseconds.
  A time value is an integer number of milliseconds; \<open>None\<close> is the invalid date.
\<close>

type_synonym zone = "int \<Rightarrow> int"

definition UTC_js :: "zone \<Rightarrow> int \<Rightarrow> int" where
  "UTC_js tz t = t - tz t"

definition ToIntegerOrInfinity :: "real \<Rightarrow> int" where
  "ToIntegerOrInfinity x = (if 0 \<le> x then \<lfloor>x\<rfloor> else \<lceil>x\<rceil>)"

definition InLeapYear :: "int \<Rightarrow> bool" where
  "InLeapYear y = ((y mod 4 = 0 \<and> y mod 100 \<noteq> 0) \<or> y mod 400 = 0)"

definition DayFromYear :: "int \<Rightarrow> int" where
  "DayFromYear y =
     365 * (y - 1970) + (y - 1969) div 4 - (y - 1901) div 100 + (y - 1601) div 400"

definition DayFromMonth :: "nat \<Rightarrow> bool \<Rightarrow> int" where
  "DayFromMonth mn leap =
     [0, 31, 59, 90, 120, 151, 181, 212, 243, 273, 304, 334] ! mn
     + (if leap \<and> 2 \<le> mn then 1 else 0)"

definition msPerDay :: int where
  "msPerDay = 86400000"

definition MakeDay :: "real option \<Rightarrow> real option \<Rightarrow> real option \<Rightarrow> int option" where
  "MakeDay year month date =
     (case (year, month, date) of
        (Some y, Some m, Some dt) \<Rightarrow>
          (let ym = ToIntegerOrInfinity y + ToIntegerOrInfinity m div 12;
               mn = ToIntegerOrInfinity m mod 12
           in Some (DayFromYear ym + DayFromMonth (nat mn) (InLeapYear ym)
                    + ToIntegerOrInfinity dt - 1))
      | _ \<Rightarrow> None)"

definition TimeClip :: "int option \<Rightarrow> int option" where
  "TimeClip t =
     (case t of
        None \<Rightarrow> None
      | Some v \<Rightarrow> if \<bar>v\<bar> > 8640000000000000 then None else Some v)"

definition Date_js ::
  "zone \<Rightarrow> real option \<Rightarrow> real option \<Rightarrow> real option \<Rightarrow> int option" where
  "Date_js tz year month day =
     (let yr = (case year of
                  None \<Rightarrow> None
                | Some y \<Rightarrow>
                    (let yi = ToIntegerOrInfinity y in
                     if 0 \<le> yi \<and> yi \<le> 99 then Some (1900 + real_of_int yi) else Some y))
      in TimeClip (map_option (\<lambda>d. UTC_js tz (d * msPerDay)) (MakeDay yr month day)))"

text \<open>An array element that a destructuring pattern asks for; a missing one is \<open>undefined\<close>,
  which reads \<open>NaN\<close> as a number.\<close>

definition element :: "real option list \<Rightarrow> nat \<Rightarrow> real option" where
  "element xs i = (if i < length xs then xs ! i else None)"

section \<open>The field validator\<close>

text \<open>
  The objects of the source that are keyed by the four audited fields share one record
  type. An extraction holds, for each field, the value read, a string, and the confidence
  of the reading, a number taken as the exact real it denotes. The reference values are
  the four fields of the row, each a string, \<open>undefined\<close> or \<open>null\<close>. A comparison is
  what the validator stores for a field.
\<close>

record 'a vale_fields =
  numeroVale :: 'a
  placa :: 'a
  m3 :: 'a
  fecha :: 'a

record field_extraction =
  valor :: string
  confianza :: real

record match =
  coincide :: bool
  observacion :: string

record comparison = match +
  extracted :: string
  expected :: jsval

record validation =
  comparaciones :: "comparison vale_fields"
  aprobado :: bool
  status :: string
  manualReviewReason :: "string option"

text \<open>A thrown error object: its name and message, and the two properties the retry
  loop reads off it.\<close>

record detail =
  type_url :: string
  retryDelay :: "string option"

record jserror =
  name :: string
  message :: string
  err_status :: "int option"
  errorDetails :: "detail list option"

definition TypeError :: "string \<Rightarrow> jserror" where
  "TypeError msg = \<lparr>name = ''TypeError'', message = msg, err_status = None, errorDetails = None\<rparr>"

subsection \<open>compareDates\<close>

definition parseDate :: "zone \<Rightarrow> string \<Rightarrow> int option" where
  "parseDate tz s =
     (let parts = map Number_js (split_js CHR ''/'' s);
          day = element parts 0; month = element parts 1; year = element parts 2
      in Date_js tz year (map_option (\<lambda>m. m - 1) month) day)"

definition diffDays :: "int option \<Rightarrow> int option \<Rightarrow> int option" where
  "diffDays extractedTime expectedTime =
     (case (extractedTime, expectedTime) of
        (Some a, Some b) \<Rightarrow> Some \<lceil>real_of_int \<bar>a - b\<bar> / real_of_int msPerDay\<rceil>
      | _ \<Rightarrow> None)"

definition showDays :: "int option \<Rightarrow> string" where
  "showDays d = (case d of None \<Rightarrow> ''NaN'' | Some n \<Rightarrow> digitsOf (nat n))"

definition withinTolerance :: "int option \<Rightarrow> string" where
  "withinTolerance d =
     ''Diferencia de '' @ showDays d @ '' d'' @ i_acute @ ''a(s), dentro de tolerancia''"

definition outsideTolerance :: "int option \<Rightarrow> string" where
  "outsideTolerance d =
     ''Diferencia de '' @ showDays d @ '' d'' @ i_acute @ ''as, fuera de tolerancia (m''
     @ a_acute @ ''ximo 2 d'' @ i_acute @ ''as)''"

definition fechaVacia :: string where
  "fechaVacia = ''Fecha vac'' @ i_acute @ ''a o inv'' @ a_acute @ ''lida''"

text \<open>The \<open>catch\<close> of the source guards \<open>split\<close> on a value that is not a string; an
  expected date that passes the first test is a non-empty string, so it is never entered.\<close>

definition compareDates :: "zone \<Rightarrow> string \<Rightarrow> jsval \<Rightarrow> match" where
  "compareDates tz extractedDate expectedDate =
     (if extractedDate = [] \<or> \<not> truthy expectedDate
      then \<lparr>coincide = False, observacion = fechaVacia\<rparr>
      else
        (let d = diffDays (parseDate tz extractedDate) (parseDate tz (String_js expectedDate)) in
         if d = Some 0 then \<lparr>coincide = True, observacion = []\<rparr>
         else if (case d of None \<Rightarrow> False | Some n \<Rightarrow> n \<le> 2)
         then \<lparr>coincide = True, observacion = withinTolerance d\<rparr>
         else \<lparr>coincide = False, observacion = outsideTolerance d\<rparr>))"

subsection \<open>comparePlaca\<close>

text \<open>\<open>expectedPlaca.trim()\<close> on \<open>null\<close> or \<open>undefined\<close> is a TypeError, with the message
  of the V8 engine.\<close>

definition trimOf :: "jsval \<Rightarrow> jserror + string" where
  "trimOf v =
     (case v of
        JStr s \<Rightarrow> Inr (trim_js s)
      | JNull \<Rightarrow> Inl (TypeError ''Cannot read properties of null (reading 'trim')'')
      | JUndefined \<Rightarrow> Inl (TypeError ''Cannot read properties of undefined (reading 'trim')''))"

definition comparePlaca :: "string \<Rightarrow> jsval \<Rightarrow> jserror + match" where
  "comparePlaca extractedPlaca expectedPlaca =
     (if extractedPlaca = []
      then Inr \<lparr>coincide = False, observacion = ''Placa no extra'' @ i_acute @ ''da''\<rparr>
      else
        (case trimOf expectedPlaca of
           Inl e \<Rightarrow> Inl e
         | Inr t \<Rightarrow>
             (let extractedUp = toUpperCase_js (trim_js extractedPlaca);
                  expectedUp = toUpperCase_js t
              in if extractedUp = expectedUp
                 then Inr \<lparr>coincide = True, observacion = []\<rparr>
                 else Inr \<lparr>coincide = False,
                           observacion = ''Placa extra'' @ i_acute @ ''da '' @ quoted extractedUp
                             @ '' no coincide con '' @ quoted expectedUp\<rparr>)))"

subsection \<open>validateExtraction\<close>

text \<open>
  The four comparisons, in the order the source builds them. The placa comparison is the
  only step that can throw, and it comes before the test for empty extractions. The
  quantities are compared as the exact reals their digits denote.
\<close>

definition numeroValeNote :: "string \<Rightarrow> jsval \<Rightarrow> string" where
  "numeroValeNote ex xp =
     ''N'' @ u_acute @ ''mero extra'' @ i_acute @ ''do '' @ quoted ex
     @ '' no coincide con '' @ quoted (String_js xp)"

definition m3Note :: "string \<Rightarrow> string \<Rightarrow> string" where
  "m3Note ex xp =
     ''Cantidad extra'' @ i_acute @ ''da '' @ quoted ex @ '' no coincide con '' @ quoted xp"

definition m3Match :: "string \<Rightarrow> string \<Rightarrow> bool" where
  "m3Match m3Extracted m3Expected =
     (case (parseFloat_js m3Extracted, parseFloat_js m3Expected) of
        (Some a, Some b) \<Rightarrow> \<bar>a - b\<bar> < 1 / 100
      | _ \<Rightarrow> False)"

definition compareFields ::
  "zone \<Rightarrow> field_extraction vale_fields \<Rightarrow> (jsval, 'z) vale_fields_scheme
     \<Rightarrow> jserror + comparison vale_fields" where
  "compareFields tz extractionResult expectedValues =
     (let numeroValeExtracted = valor (numeroVale extractionResult);
          numeroValeExpected = numeroVale expectedValues;
          cNumeroVale =
            \<lparr>coincide = (JStr numeroValeExtracted = numeroValeExpected),
             observacion = (if JStr numeroValeExtracted = numeroValeExpected then []
                            else numeroValeNote numeroValeExtracted numeroValeExpected),
             extracted = numeroValeExtracted,
             expected = numeroValeExpected\<rparr>
      in case comparePlaca (valor (placa extractionResult)) (placa expectedValues) of
           Inl e \<Rightarrow> Inl e
         | Inr p \<Rightarrow>
             (let cPlaca =
                    \<lparr>coincide = coincide p, observacion = observacion p,
                     extracted = valor (placa extractionResult),
                     expected = placa expectedValues\<rparr>;
                  m3Extracted = valor (m3 extractionResult);
                  m3Expected = String_js (m3 expectedValues);
                  cM3 =
                    \<lparr>coincide = m3Match m3Extracted m3Expected,
                     observacion = (if m3Match m3Extracted m3Expected then []
                                    else m3Note m3Extracted m3Expected),
                     extracted = m3Extracted,
                     expected = JStr m3Expected\<rparr>;
                  fechaComparison =
                    compareDates tz (valor (fecha extractionResult)) (fecha expectedValues);
                  cFecha =
                    \<lparr>coincide = coincide fechaComparison,
                     observacion = observacion fechaComparison,
                     extracted = valor (fecha extractionResult),
                     expected = fecha expectedValues\<rparr>
              in Inr \<lparr>numeroVale = cNumeroVale, placa = cPlaca, m3 = cM3, fecha = cFecha\<rparr>))"

definition hasEmptyExtraction :: "field_extraction vale_fields \<Rightarrow> bool" where
  "hasEmptyExtraction extractionResult =
     (valor (numeroVale extractionResult) = [] \<or> valor (placa extractionResult) = []
      \<or> valor (m3 extractionResult) = [] \<or> valor (fecha extractionResult) = [])"

definition CONFIDENCE_THRESHOLD :: real where
  "CONFIDENCE_THRESHOLD = 7 / 10"

text \<open>\<open>x.toFixed(0)\<close>: the nearest integer, a tie going away from zero, printed in
  full (the exponent form that JavaScript switches to from 1e21 on is not modelled).\<close>

definition toFixed0 :: "real \<Rightarrow> string" where
  "toFixed0 x =
     (if x < 0 then ''-'' @ digitsOf (nat \<lfloor>- x + 1 / 2\<rfloor>)
      else digitsOf (nat \<lfloor>x + 1 / 2\<rfloor>))"

definition lowConfidenceEntry :: "string \<Rightarrow> field_extraction \<Rightarrow> string list" where
  "lowConfidenceEntry field e =
     (if confianza e < CONFIDENCE_THRESHOLD
      then [field @ '' ('' @ toFixed0 (confianza e * 100) @ ''%)'']
      else [])"

definition lowConfidenceFields :: "field_extraction vale_fields \<Rightarrow> string list" where
  "lowConfidenceFields extractionResult =
     lowConfidenceEntry ''numeroVale'' (numeroVale extractionResult)
     @ lowConfidenceEntry ''placa'' (placa extractionResult)
     @ lowConfidenceEntry ''m3'' (m3 extractionResult)
     @ lowConfidenceEntry ''fecha'' (fecha extractionResult)"

definition allMatch :: "comparison vale_fields \<Rightarrow> bool" where
  "allMatch c = list_all coincide [numeroVale c, placa c, m3 c, fecha c]"

definition camposNoExtraidos :: string where
  "camposNoExtraidos =
     ''Uno o m'' @ a_acute @ ''s campos no pudieron ser extra'' @ i_acute @ ''dos''"

definition validateExtraction ::
  "zone \<Rightarrow> field_extraction vale_fields \<Rightarrow> (jsval, 'z) vale_fields_scheme \<Rightarrow> string list
     \<Rightarrow> jserror + validation" where
  "validateExtraction tz extractionResult expectedValues validPlacas =
     (case compareFields tz extractionResult expectedValues of
        Inl e \<Rightarrow> Inl e
      | Inr c \<Rightarrow>
          if hasEmptyExtraction extractionResult
          then Inr \<lparr>comparaciones = c, aprobado = False,
                    status = ''requiere_revision_manual'',
                    manualReviewReason = Some camposNoExtraidos\<rparr>
          else
            (let low = lowConfidenceFields extractionResult;
                 hasLowConfidence = (low \<noteq> [])
             in if allMatch c \<and> \<not> hasLowConfidence
                then Inr \<lparr>comparaciones = c, aprobado = True, status = ''aprobado'',
                          manualReviewReason = None\<rparr>
                else if allMatch c \<and> hasLowConfidence
                then Inr \<lparr>comparaciones = c, aprobado = False,
                          status = ''requiere_revision_manual'',
                          manualReviewReason =
                            Some (''Confianza baja en: '' @ join_js '', '' low)\<rparr>
                else if \<not> allMatch c \<and> hasLowConfidence
                then Inr \<lparr>comparaciones = c, aprobado = False,
                          status = ''requiere_revision_manual'',
                          manualReviewReason =
                            Some (''Inconsistencias con confianza baja en: ''
                                  @ join_js '', '' low)\<rparr>
                else Inr \<lparr>comparaciones = c, aprobado = False,
                          status = ''inconsistencias_encontradas'',
                          manualReviewReason = None\<rparr>))"

subsection \<open>Notions used to state the decision policy\<close>

definition isString :: "jsval \<Rightarrow> bool" where
  "isString v = (case v of JStr s \<Rightarrow> True | JUndefined \<Rightarrow> False | JNull \<Rightarrow> False)"

definition lowConfidence :: "field_extraction \<Rightarrow> bool" where
  "lowConfidence e = (confianza e < 7 / 10)"

text \<open>The condition of the fifth rule of the decision policy as the specification words
  it: some field that failed to match was read with a confidence below the threshold.\<close>

definition lowConfidenceOnMismatch ::
  "comparison vale_fields \<Rightarrow> field_extraction vale_fields \<Rightarrow> bool" where
  "lowConfidenceOnMismatch c extractionResult =
     ((\<not> coincide (numeroVale c) \<and> lowConfidence (numeroVale extractionResult))
      \<or> (\<not> coincide (placa c) \<and> lowConfidence (placa extractionResult))
      \<or> (\<not> coincide (m3 c) \<and> lowConfidence (m3 extractionResult))
      \<or> (\<not> coincide (fecha c) \<and> lowConfidence (fecha extractionResult)))"

text \<open>A reading of one vale and the reference row it is checked against, for the
  worked examples: every field matches and is read with high confidence.\<close>

definition sampleExtraction :: "field_extraction vale_fields" where
  "sampleExtraction =
     \<lparr>numeroVale = \<lparr>valor = ''24697'', confianza = 1\<rparr>,
      placa = \<lparr>valor = ''ttn893'', confianza = 9 / 10\<rparr>,
      m3 = \<lparr>valor = ''16.00'', confianza = 9 / 10\<rparr>,
      fecha = \<lparr>valor = ''12/12/2025'', confianza = 19 / 20\<rparr>\<rparr>"

definition sampleExpected :: "jsval vale_fields" where
  "sampleExpected =
     \<lparr>numeroVale = JStr ''24697'', placa = JStr ''TTN893'', m3 = JStr ''16'',
      fecha = JStr ''10/12/2025''\<rparr>"

subsection \<open>Time zones and the calendar, to say what a day difference is\<close>

text \<open>
  A time zone whose offset never changes, UTC among them, and one with a clock change:
  New York around the end of daylight-saving time in 2025, where the offset is -4 h for the
  local times before 2 November 2025, 02:00 (day 20394 from 1 January 1970), and -5 h from
  then on.
\<close>

definition fixedOffset :: "int \<Rightarrow> zone" where
  "fixedOffset c t = c"

definition utc :: zone where
  "utc = fixedOffset 0"

definition newYorkAutumn2025 :: zone where
  "newYorkAutumn2025 t =
     (if t < 20394 * 86400000 + 2 * 3600000 then - (4 * 3600000) else - (5 * 3600000))"

text \<open>
  The day a date string parses to under a constant offset: the time value moved back to
  local time, in whole days from 1 January 1970. Beside it the same count made on the
  calendar itself: whole years, then whole months, then days, with the leap years of the
  Gregorian calendar. A date in the form DD/MM/YYYY is three runs of digits separated by
  slashes.
\<close>

definition dayOf :: "int \<Rightarrow> string \<Rightarrow> int option" where
  "dayOf c s = map_option (\<lambda>t. (t + c) div msPerDay) (parseDate (fixedOffset c) s)"

definition leapYear :: "nat \<Rightarrow> bool" where
  "leapYear y = ((y mod 4 = 0 \<and> y mod 100 \<noteq> 0) \<or> y mod 400 = 0)"

definition daysInMonth :: "nat \<Rightarrow> nat \<Rightarrow> nat" where
  "daysInMonth y m =
     (if m = 2 then (if leapYear y then 29 else 28)
      else if m \<in> {4, 6, 9, 11} then 30 else 31)"

primrec daysBeforeYear :: "nat \<Rightarrow> nat" where
  "daysBeforeYear 0 = 0"
| "daysBeforeYear (Suc y) = daysBeforeYear y + (if leapYear y then 366 else 365)"

definition daysBeforeMonth :: "nat \<Rightarrow> nat \<Rightarrow> nat" where
  "daysBeforeMonth y m = sum_list (map (daysInMonth y) [1..<m])"

definition calendarDay :: "nat \<Rightarrow> nat \<Rightarrow> nat \<Rightarrow> int" where
  "calendarDay d m y = int (daysBeforeYear y + daysBeforeMonth y m + d)"

definition validDate :: "nat \<Rightarrow> nat \<Rightarrow> nat \<Rightarrow> bool" where
  "validDate d m y = (1 \<le> m \<and> m \<le> 12 \<and> 1 \<le> d \<and> d \<le> daysInMonth y m)"

definition digitString :: "string \<Rightarrow> bool" where
  "digitString ds = (ds \<noteq> [] \<and> list_all isDigit ds)"

section \<open>The retry-wrapped oracle caller\<close>

text \<open>
  What \<open>auditWithGemini\<close> meets outside itself while it works on one record: the retry
  bound read from the environment (a value that does not parse as a number stops the
  loop like 0 does), the time zone of the process, whether the downloaded image can be
  read, the answer of the quality gate, and, for each attempt, what the extraction call
  gives: an error thrown by the call, a text that \<open>JSON.parse\<close> rejects (with the
  parser's message), or the parsed extraction. The effects kept are the sleeps, in
  milliseconds and in order.
\<close>

record quality =
  qualityScore :: real
  isReadable :: bool
  reason :: string

datatype quality_outcome = QualityThrows | QualityResult quality

datatype oracle_outcome =
    Throws jserror
  | Malformed string
  | Parsed "field_extraction vale_fields"

record world =
  maxRetries :: int
  timeZone :: zone
  readImage :: "jserror option"
  qualityGate :: quality_outcome
  generateContent :: "nat \<Rightarrow> oracle_outcome"

text \<open>The two shapes of the value returned: the short-circuit of an unreadable image,
  with the gate's score and reason, and the audit proper, with the extraction, the
  validation result and the quality score (null on every attempt but the first).\<close>

datatype gemini_result =
    RequiresManualReview real string
  | Audited "field_extraction vale_fields" validation "real option"

definition newError :: "string \<Rightarrow> jserror" where
  "newError msg = \<lparr>name = ''Error'', message = msg, err_status = None, errorDetails = None\<rparr>"

definition SyntaxError :: "string \<Rightarrow> jserror" where
  "SyntaxError msg =
     \<lparr>name = ''SyntaxError'', message = msg, err_status = None, errorDetails = None\<rparr>"

definition baseDelay :: nat where
  "baseDelay = 1000"

definition isRetriable :: "jserror \<Rightarrow> bool" where
  "isRetriable error =
     (case err_status error of
        None \<Rightarrow> False
      | Some s \<Rightarrow> s = 429 \<or> (500 \<le> s \<and> s < 600))"

text \<open>The first match of \<open>/(\<bsol>d+)s/\<close>: the first run of digits that an \<open>s\<close> follows, read as
  a decimal number.\<close>

function matchSeconds :: "string \<Rightarrow> nat option" where
  "matchSeconds [] = None"
| "matchSeconds (c # cs) =
     (if isDigit c then
        (if dropWhile isDigit cs \<noteq> [] \<and> hd (dropWhile isDigit cs) = CHR ''s''
         then Some (digitsValue (c # takeWhile isDigit cs))
         else matchSeconds (dropWhile isDigit cs))
      else matchSeconds cs)"
  by pat_completeness auto
termination
  by (relation "measure length") (auto simp: length_dropWhile_le less_Suc_eq_le)

definition retryInfoDelay :: "jserror \<Rightarrow> nat option" where
  "retryInfoDelay error =
     (if err_status error = Some 429 then
        (case errorDetails error of
           None \<Rightarrow> None
         | Some details \<Rightarrow>
             (case find (\<lambda>d. type_url d = ''type.googleapis.com/google.rpc.RetryInfo'') details of
                None \<Rightarrow> None
              | Some retryInfo \<Rightarrow>
                  (case retryDelay retryInfo of
                     None \<Rightarrow> None
                   | Some s \<Rightarrow> map_option (\<lambda>n. n * 1000) (matchSeconds s))))
      else None)"

definition actualDelay :: "nat \<Rightarrow> jserror \<Rightarrow> nat" where
  "actualDelay attempt error =
     (case retryInfoDelay error of
        Some d \<Rightarrow> d
      | None \<Rightarrow> baseDelay * 2 ^ attempt)"

text \<open>One pass through the \<open>try\<close> block: it returns, or it sleeps and continues (the
  parse failure before the last attempt), or it throws into the \<open>catch\<close>.\<close>

datatype try_outcome =
    Return gemini_result
  | Continue jserror nat
  | Caught jserror

definition extractStep ::
  "world \<Rightarrow> (jsval, 'z) vale_fields_scheme \<Rightarrow> string list \<Rightarrow> nat \<Rightarrow> real option \<Rightarrow> try_outcome" where
  "extractStep w record validPlacas attempt score =
     (case generateContent w attempt of
        Throws e \<Rightarrow> Caught e
      | Malformed msg \<Rightarrow>
          if int attempt < maxRetries w - 1
          then Continue (newError (''JSON parse error: '' @ msg)) (baseDelay * 2 ^ attempt)
          else Caught (SyntaxError msg)
      | Parsed extractionResult \<Rightarrow>
          (case validateExtraction (timeZone w) extractionResult record validPlacas of
             Inl e \<Rightarrow> Caught e
           | Inr validationResult \<Rightarrow> Return (Audited extractionResult validationResult score)))"

definition tryBody ::
  "world \<Rightarrow> (jsval, 'z) vale_fields_scheme \<Rightarrow> string list \<Rightarrow> nat \<Rightarrow> try_outcome" where
  "tryBody w record validPlacas attempt =
     (case readImage w of
        Some e \<Rightarrow> Caught e
      | None \<Rightarrow>
          if attempt = 0 then
            (case qualityGate w of
               QualityThrows \<Rightarrow> extractStep w record validPlacas attempt None
             | QualityResult q \<Rightarrow>
                 if \<not> isReadable q then Return (RequiresManualReview (qualityScore q) (reason q))
                 else extractStep w record validPlacas attempt (Some (qualityScore q)))
          else extractStep w record validPlacas attempt None)"

text \<open>The loop. The pair returned is what the function returns or throws (\<open>Inl None\<close> is
  the \<open>throw lastError\<close> after the loop with nothing assigned) and the sleeps made.\<close>

function attemptLoop ::
  "world \<Rightarrow> (jsval, 'z) vale_fields_scheme \<Rightarrow> string list \<Rightarrow> nat \<Rightarrow> jserror option \<Rightarrow> nat list
     \<Rightarrow> (jserror option + gemini_result) \<times> nat list" where
  "attemptLoop w record validPlacas attempt lastError sleeps =
     (if \<not> int attempt < maxRetries w then (Inl lastError, sleeps)
      else
        (case tryBody w record validPlacas attempt of
           Return result \<Rightarrow> (Inr result, sleeps)
         | Continue e delay \<Rightarrow>
             attemptLoop w record validPlacas (attempt + 1) (Some e) (sleeps @ [delay])
         | Caught error \<Rightarrow>
             if \<not> isRetriable error \<or> int attempt = maxRetries w - 1
             then (Inl (Some error), sleeps)
             else attemptLoop w record validPlacas (attempt + 1) (Some error)
                    (sleeps @ [actualDelay attempt error])))"
  by pat_completeness auto
termination
  by (relation "measure (\<lambda>(w, record, validPlacas, attempt, lastError, sleeps).
                  nat (maxRetries w - int attempt))") auto

definition auditWithGemini ::
  "world \<Rightarrow> bool \<Rightarrow> (jsval, 'z) vale_fields_scheme \<Rightarrow> string list
     \<Rightarrow> (jserror option + gemini_result) \<times> nat list" where
  "auditWithGemini w bucketAvailable record validPlacas =
     (if \<not> bucketAvailable then (Inl (Some (newError ''Bucket not available'')), [])
      else attemptLoop w record validPlacas 0 None [])"

subsection \<open>Notions used to state the retry policy\<close>

text \<open>The quality gate lets the record through to the extraction: it rated the image
  readable, or its own call failed.\<close>

definition gatePasses :: "world \<Rightarrow> bool" where
  "gatePasses w = (case qualityGate w of QualityThrows \<Rightarrow> True | QualityResult q \<Rightarrow> isReadable q)"

text \<open>Worlds for the worked examples: an oracle whose first two extraction answers are
  malformed and whose third is the sample extraction; one that is malformed every time;
  one that always fails with the given error.\<close>

definition readableGate :: quality_outcome where
  "readableGate = QualityResult \<lparr>qualityScore = 8, isReadable = True, reason = []\<rparr>"

definition malformedTwice :: world where
  "malformedTwice =
     \<lparr>maxRetries = 4, timeZone = utc, readImage = None, qualityGate = readableGate,
      generateContent = (\<lambda>attempt. if attempt < 2 then Malformed ''Unexpected end of JSON input''
                                    else Parsed sampleExtraction)\<rparr>"

definition malformedAlways :: world where
  "malformedAlways =
     \<lparr>maxRetries = 4, timeZone = utc, readImage = None, qualityGate = readableGate,
      generateContent = (\<lambda>attempt. Malformed ''Unexpected end of JSON input'')\<rparr>"

definition failingWith :: "jserror \<Rightarrow> world" where
  "failingWith e =
     \<lparr>maxRetries = 4, timeZone = utc, readImage = None, qualityGate = readableGate,
      generateContent = (\<lambda>attempt. Throws e)\<rparr>"

definition httpError :: "int \<Rightarrow> detail list option \<Rightarrow> jserror" where
  "httpError s details =
     \<lparr>name = ''Error'', message = ''request failed'', err_status = Some s, errorDetails = details\<rparr>"


definition sampleValidation :: validation where
  "sampleValidation =
     \<lparr>comparaciones =
        \<lparr>numeroVale = \<lparr>coincide = True, observacion = [], extracted = ''24697'',
                         expected = JStr ''24697''\<rparr>,
         placa = \<lparr>coincide = True, observacion = [], extracted = ''ttn893'',
                   expected = JStr ''TTN893''\<rparr>,
         m3 = \<lparr>coincide = True, observacion = [], extracted = ''16.00'',
                expected = JStr ''16''\<rparr>,
         fecha = \<lparr>coincide = True, observacion = withinTolerance (Some 2),
                   extracted = ''12/12/2025'', expected = JStr ''10/12/2025''\<rparr>\<rparr>,
      aprobado = True, status = ''aprobado'', manualReviewReason = None\<rparr>"

section \<open>Blob store, processing ledger and orchestrator\<close>

text \<open>
  A reference row as the extraction step builds it: the four audited fields, the row
  identifier, the site and the image reference. The stored documents are the ledger index
  (its \<open>processed_ids\<close>; the count and the time stamp beside them are never read), an
  audit result, the failure summary, the cached extraction with its list of valid placas,
  and anything else. The bucket is the list of its objects, name and content; a listing
  gives the names in that order. \<open>None\<close> for a bucket is the \<open>null\<close> that \<open>getBucket\<close>
  returns when the storage client cannot be built. Storage calls that reach the bucket
  succeed.
\<close>

record vale_record = "jsval vale_fields" +
  rowId :: string
  obra :: jsval
  fotoVale :: jsval

record discrepancy =
  field :: string
  d_extracted :: string
  d_expected :: jsval
  d_reason :: string

record audit_doc =
  row_id :: string
  timestamp :: string
  doc_aprobado :: "bool option"
  doc_obra :: jsval
  image_path :: string
  gemini_extraction :: "string vale_fields option"
  appsheet_values :: "jsval vale_fields option"
  doc_comparaciones :: "match vale_fields option"
  discrepancies :: "discrepancy list"
  doc_status :: string
  doc_qualityScore :: "real option"
  doc_manualReviewReason :: "string option"
  doc_error :: "string option"

datatype blob =
    IndexDoc "string list"
  | ResultDoc audit_doc
  | SummaryDoc "(string \<times> string option) list"
  | ExtractionDoc "string list"
  | OtherDoc

type_synonym bucket = "(string \<times> blob) list"

subsection \<open>bucket.js\<close>

definition fileExists :: "bucket option \<Rightarrow> string \<Rightarrow> bool" where
  "fileExists b filePath =
     (case b of None \<Rightarrow> False | Some files \<Rightarrow> map_of files filePath \<noteq> None)"

definition readJSON :: "bucket option \<Rightarrow> string \<Rightarrow> blob option" where
  "readJSON b filePath = (case b of None \<Rightarrow> None | Some files \<Rightarrow> map_of files filePath)"

fun put :: "string \<Rightarrow> blob \<Rightarrow> bucket \<Rightarrow> bucket" where
  "put k v [] = [(k, v)]"
| "put k v ((k', v') # files) =
     (if k' = k then (k, v) # files else (k', v') # put k v files)"

text \<open>\<open>writeJSON\<close>, as the bucket it leaves.\<close>

definition writeJSON :: "bucket option \<Rightarrow> string \<Rightarrow> blob \<Rightarrow> bucket option" where
  "writeJSON b filePath data = map_option (put filePath data) b"

definition listFiles :: "bucket option \<Rightarrow> string \<Rightarrow> string list" where
  "listFiles b pre = (case b of None \<Rightarrow> [] | Some files \<Rightarrow> filter (prefix pre) (map fst files))"

text \<open>\<open>path.basename(path, ext)\<close> of Node on POSIX paths: the last component, without the
  extension when the component ends in it and is more than it; a component that is only
  the tail of the extension comes back with the slashes that follow it.\<close>

definition isSlash :: "char \<Rightarrow> bool" where
  "isSlash c = (c = CHR ''/'')"

definition lastComponent :: "string \<Rightarrow> string" where
  "lastComponent p = rev (takeWhile (\<lambda>c. \<not> isSlash c) (dropWhile isSlash (rev p)))"

definition basename_js :: "string \<Rightarrow> string \<Rightarrow> string" where
  "basename_js p ext =
     (if ext \<noteq> [] \<and> length ext \<le> length p then
        (if ext = p then []
         else
           (let comp = lastComponent p in
            if suffix ext comp \<and> comp \<noteq> ext then take (length comp - length ext) comp
            else if suffix comp ext \<and> comp \<noteq> ext
            then comp @ rev (takeWhile isSlash (rev p))
            else comp))
      else lastComponent p)"

definition indexPath :: "string \<Rightarrow> string" where
  "indexPath datePath = ''audits/'' @ datePath @ ''/index.json''"

definition processedPrefix :: "string \<Rightarrow> string" where
  "processedPrefix datePath = ''audits/'' @ datePath @ ''/processed/''"

definition updateProcessedIndex :: "bucket option \<Rightarrow> string \<Rightarrow> string list \<Rightarrow> bucket option" where
  "updateProcessedIndex b datePath processedIds =
     writeJSON b (indexPath datePath) (IndexDoc processedIds)"

definition getProcessedRowIds :: "bucket option \<Rightarrow> string \<Rightarrow> string list \<times> bucket option" where
  "getProcessedRowIds b datePath =
     (case (if fileExists b (indexPath datePath) then readJSON b (indexPath datePath) else None) of
        Some (IndexDoc ids) \<Rightarrow> (ids, b)
      | _ \<Rightarrow>
          (let fileNames = listFiles b (processedPrefix datePath);
               processedIds = map (\<lambda>n. basename_js n ''.json'') fileNames
           in (processedIds,
               if processedIds \<noteq> [] then updateProcessedIndex b datePath processedIds else b)))"

definition addToProcessedIndex :: "bucket option \<Rightarrow> string \<Rightarrow> string \<Rightarrow> bucket option" where
  "addToProcessedIndex b datePath rid =
     (let processedIds =
            (if fileExists b (indexPath datePath)
             then (case readJSON b (indexPath datePath) of
                     Some (IndexDoc ids) \<Rightarrow> ids
                   | _ \<Rightarrow> [])
             else [])
      in if rid \<notin> set processedIds
         then updateProcessedIndex b datePath (processedIds @ [rid])
         else b)"

definition getValidPlacas :: "bucket option \<Rightarrow> string \<Rightarrow> string list" where
  "getValidPlacas b datePath =
     (if fileExists b (''extractions/'' @ datePath @ ''/appsheet_data.json'')
      then (case readJSON b (''extractions/'' @ datePath @ ''/appsheet_data.json'') of
              Some (ExtractionDoc valid_placas) \<Rightarrow> valid_placas
            | _ \<Rightarrow> [])
      else [])"

subsection \<open>audit.js\<close>

definition getUnprocessedRecords ::
  "vale_record list \<Rightarrow> string \<Rightarrow> bucket option \<Rightarrow> vale_record list \<times> bucket option" where
  "getUnprocessedRecords records datePath b =
     (case b of
        None \<Rightarrow> (records, b)
      | Some files \<Rightarrow>
          (let (processedIds, b') = getProcessedRowIds b datePath
           in (filter (\<lambda>r. rowId r \<notin> set processedIds) records, b')))"

definition orNull :: "jsval \<Rightarrow> jsval" where
  "orNull v = (if truthy v then v else JNull)"

definition appsheetValues :: "vale_record \<Rightarrow> jsval vale_fields" where
  "appsheetValues r =
     \<lparr>numeroVale = orNull (numeroVale r), placa = orNull (placa r), m3 = orNull (m3 r),
      fecha = orNull (fecha r)\<rparr>"

definition o_acute :: string where "o_acute = [CHR 0xC3, CHR 0xB3]"

definition imagenIlegible :: match where
  "imagenIlegible =
     \<lparr>coincide = False,
      observacion = ''Imagen ilegible - requiere revisi'' @ o_acute @ ''n manual''\<rparr>"

definition manualReviewPath :: "string \<Rightarrow> string \<Rightarrow> string" where
  "manualReviewPath datePath rid = ''audits/'' @ datePath @ ''/manual_review/'' @ rid @ ''.json''"

definition processedPath :: "string \<Rightarrow> string \<Rightarrow> string" where
  "processedPath datePath rid = ''audits/'' @ datePath @ ''/processed/'' @ rid @ ''.json''"

definition failedPath :: "string \<Rightarrow> string \<Rightarrow> string" where
  "failedPath datePath rid = ''audits/'' @ datePath @ ''/failed/'' @ rid @ ''.json''"

definition manualReviewResult ::
  "string \<Rightarrow> vale_record \<Rightarrow> string \<Rightarrow> real \<Rightarrow> string \<Rightarrow> audit_doc" where
  "manualReviewResult now r imagePath score why =
     \<lparr>row_id = rowId r, timestamp = now, doc_aprobado = Some False, doc_obra = orNull (obra r),
      image_path = imagePath,
      gemini_extraction = Some \<lparr>numeroVale = [], placa = [], m3 = [], fecha = []\<rparr>,
      appsheet_values = Some (appsheetValues r),
      doc_comparaciones =
        Some \<lparr>numeroVale = imagenIlegible, placa = imagenIlegible, m3 = imagenIlegible,
              fecha = imagenIlegible\<rparr>,
      discrepancies = [], doc_status = ''requiere_revision_manual'',
      doc_qualityScore = Some score, doc_manualReviewReason = Some why, doc_error = None\<rparr>"

definition discrepancyOf :: "string \<Rightarrow> field_extraction \<Rightarrow> jsval \<Rightarrow> comparison \<Rightarrow> discrepancy list" where
  "discrepancyOf f e x c =
     (if \<not> coincide c
      then [\<lparr>field = f, d_extracted = valor e, d_expected = x, d_reason = observacion c\<rparr>]
      else [])"

definition matchOf :: "comparison \<Rightarrow> match" where
  "matchOf c = \<lparr>coincide = coincide c, observacion = observacion c\<rparr>"

definition auditResult ::
  "string \<Rightarrow> vale_record \<Rightarrow> string \<Rightarrow> field_extraction vale_fields \<Rightarrow> validation \<Rightarrow> audit_doc" where
  "auditResult now r imagePath ex v =
     \<lparr>row_id = rowId r, timestamp = now, doc_aprobado = Some (aprobado v),
      doc_obra = orNull (obra r), image_path = imagePath,
      gemini_extraction =
        Some \<lparr>numeroVale = valor (numeroVale ex), placa = valor (placa ex),
              m3 = valor (m3 ex), fecha = valor (fecha ex)\<rparr>,
      appsheet_values = Some (appsheetValues r),
      doc_comparaciones =
        Some \<lparr>numeroVale = matchOf (numeroVale (comparaciones v)),
              placa = matchOf (placa (comparaciones v)),
              m3 = matchOf (m3 (comparaciones v)),
              fecha = matchOf (fecha (comparaciones v))\<rparr>,
      discrepancies =
        discrepancyOf ''numeroVale'' (numeroVale ex) (numeroVale r) (numeroVale (comparaciones v))
        @ discrepancyOf ''placa'' (placa ex) (placa r) (placa (comparaciones v))
        @ discrepancyOf ''m3'' (m3 ex) (m3 r) (m3 (comparaciones v))
        @ discrepancyOf ''fecha'' (fecha ex) (fecha r) (fecha (comparaciones v)),
      doc_status =
        (if status v \<noteq> [] then status v
         else if aprobado v then ''aprobado'' else ''inconsistencias_encontradas''),
      doc_qualityScore = None,
      doc_manualReviewReason =
        (case manualReviewReason v of
           None \<Rightarrow> None
         | Some s \<Rightarrow> if s = [] then None else Some s),
      doc_error = None\<rparr>"

definition errorResult :: "string \<Rightarrow> vale_record \<Rightarrow> string \<Rightarrow> jserror \<Rightarrow> audit_doc" where
  "errorResult now r imagePath e =
     \<lparr>row_id = rowId r, timestamp = now, doc_aprobado = None, doc_obra = orNull (obra r),
      image_path = imagePath, gemini_extraction = None, appsheet_values = None,
      doc_comparaciones = None, discrepancies = [], doc_status = ''error'',
      doc_qualityScore = None, doc_manualReviewReason = None, doc_error = Some (message e)\<rparr>"

text \<open>\<open>auditRecord\<close>. The storage helpers never throw. The \<open>catch\<close> reads \<open>error.message\<close>:
  on the value \<open>undefined\<close>, which \<open>auditWithGemini\<close> throws when its loop never ran, that
  is a TypeError which leaves the function before anything is written.\<close>

definition auditRecord ::
  "world \<Rightarrow> string \<Rightarrow> vale_record \<Rightarrow> string \<Rightarrow> string \<Rightarrow> string list \<Rightarrow> bucket option
     \<Rightarrow> (jserror + audit_doc) \<times> bucket option" where
  "auditRecord w now r imagePath datePath validPlacas b =
     (case fst (auditWithGemini w (b \<noteq> None) r validPlacas) of
        Inr (RequiresManualReview score why) \<Rightarrow>
          (Inr (manualReviewResult now r imagePath score why),
           addToProcessedIndex
             (writeJSON b (manualReviewPath datePath (rowId r))
                (ResultDoc (manualReviewResult now r imagePath score why)))
             datePath (rowId r))
      | Inr (Audited ex v score) \<Rightarrow>
          (Inr (auditResult now r imagePath ex v),
           addToProcessedIndex
             (writeJSON b (processedPath datePath (rowId r))
                (ResultDoc (auditResult now r imagePath ex v)))
             datePath (rowId r))
      | Inl None \<Rightarrow>
          (Inl (TypeError ''Cannot read properties of undefined (reading 'message')''), b)
      | Inl (Some e) \<Rightarrow>
          (Inr (errorResult now r imagePath e),
           writeJSON b (failedPath datePath (rowId r)) (ResultDoc (errorResult now r imagePath e))))"

definition imagePathOf :: "string \<Rightarrow> vale_record \<Rightarrow> string" where
  "imagePathOf datePath r =
     ''images/'' @ datePath @ ''/''
     @ (case fotoVale r of
          JStr s \<Rightarrow> last (split_js CHR ''/'' s)
        | JUndefined \<Rightarrow> ''undefined''
        | JNull \<Rightarrow> ''undefined'')"

text \<open>The loop over the unprocessed records: each has its own world. An error that
  leaves \<open>auditRecord\<close> ends the batch.\<close>

fun auditEach ::
  "(vale_record \<Rightarrow> world) \<Rightarrow> string \<Rightarrow> string \<Rightarrow> string list \<Rightarrow> vale_record list
     \<Rightarrow> bucket option \<Rightarrow> audit_doc list \<Rightarrow> (jserror + audit_doc list) \<times> bucket option" where
  "auditEach ws now datePath validPlacas [] b results = (Inr results, b)"
| "auditEach ws now datePath validPlacas (r # rs) b results =
     (case auditRecord (ws r) now r (imagePathOf datePath r) datePath validPlacas b of
        (Inl e, b') \<Rightarrow> (Inl e, b')
      | (Inr result, b') \<Rightarrow> auditEach ws now datePath validPlacas rs b' (results @ [result]))"

definition auditAllRecords ::
  "(vale_record \<Rightarrow> world) \<Rightarrow> string \<Rightarrow> vale_record list \<Rightarrow> string \<Rightarrow> bucket option
     \<Rightarrow> (jserror + audit_doc list) \<times> bucket option" where
  "auditAllRecords ws now records datePath b =
     (let (unprocessed, b1) = getUnprocessedRecords records datePath b in
      if unprocessed = [] then (Inr [], b1)
      else
        (case auditEach ws now datePath (getValidPlacas b1 datePath) unprocessed b1 [] of
           (Inl e, b2) \<Rightarrow> (Inl e, b2)
         | (Inr results, b2) \<Rightarrow>
             (let failed = filter (\<lambda>f. doc_status f = ''error'') results in
              (Inr results,
               if failed \<noteq> []
               then writeJSON b2 (''audits/'' @ datePath @ ''/failure_summary.json'')
                      (SummaryDoc (map (\<lambda>f. (row_id f, doc_error f)) failed))
               else b2))))"

subsection \<open>Notions used to state the ledger properties\<close>

text \<open>The ledger of a date-partition: the ids in its index document, none when there is
  no such document.\<close>

definition ledger :: "bucket option \<Rightarrow> string \<Rightarrow> string list" where
  "ledger b datePath =
     (case readJSON b (indexPath datePath) of Some (IndexDoc ids) \<Rightarrow> ids | _ \<Rightarrow> [])"

definition sampleRecord :: "string \<Rightarrow> vale_record" where
  "sampleRecord rid =
     \<lparr>numeroVale = JStr ''24697'', placa = JStr ''TTN893'', m3 = JStr ''16'',
      fecha = JStr ''10/12/2025'', rowId = rid, obra = JStr ''Obra Norte'',
      fotoVale = JStr ''vales/foto1.jpg''\<rparr>"

text \<open>A world whose quality gate rates the image unreadable.\<close>

definition unreadableImage :: world where
  "unreadableImage =
     \<lparr>maxRetries = 4, timeZone = utc, readImage = None,
      qualityGate = QualityResult \<lparr>qualityScore = 3, isReadable = False, reason = ''borrosa''\<rparr>,
      generateContent = (\<lambda>attempt. Parsed sampleExtraction)\<rparr>"

definition knownStatuses :: "string set" where
  "knownStatuses = {''aprobado'', ''requiere_revision_manual'', ''inconsistencias_encontradas''}"

text \<open>A world with the retry bound 0, as \<open>GEMINI_MAX_RETRIES=0\<close> sets it; its oracle would
  answer every call with the sample extraction.\<close>

definition zeroRetries :: world where
  "zeroRetries =
     \<lparr>maxRetries = 0, timeZone = utc, readImage = None, qualityGate = readableGate,
      generateContent = (\<lambda>attempt. Parsed sampleExtraction)\<rparr>"

section \<open>Properties of the field validator\<close>

lemmas scan_defs = Number_js_def parseFloat_js_def trim_js_def isWhiteSpace_def scanDecimal_def
  scanSign_def isDigit_def digitsValue_def digitVal_def scanExponent_def

lemmas date_defs = parseDate_def Date_js_def MakeDay_def TimeClip_def DayFromYear_def
  DayFromMonth_def InLeapYear_def ToIntegerOrInfinity_def msPerDay_def element_def diffDays_def
  UTC_js_def utc_def fixedOffset_def

lemma parseDate_10_12_2025: "parseDate utc ''10/12/2025'' = Some 1765324800000"
  by (simp add: scan_defs date_defs)
lemma parseDate_12_12_2025: "parseDate utc ''12/12/2025'' = Some 1765497600000"
  by (simp add: scan_defs date_defs)

lemma comparePlaca_total:
  "isString xp \<or> p = [] \<Longrightarrow> \<exists>m. comparePlaca p xp = Inr m"
  by (cases xp) (auto simp: comparePlaca_def trimOf_def isString_def Let_def)

lemma compareFields_total:
  assumes "isString (placa xp) \<or> valor (placa ex) = []"
  shows "\<exists>c. compareFields tz ex xp = Inr c"
proof -
  from comparePlaca_total [OF assms] obtain m
    where "comparePlaca (valor (placa ex)) (placa xp) = Inr m" by blast
  then show ?thesis by (simp add: compareFields_def Let_def)
qed

lemma lowConfidenceFields_empty:
  "(lowConfidenceFields ex = []) =
     (\<not> lowConfidence (numeroVale ex) \<and> \<not> lowConfidence (placa ex)
      \<and> \<not> lowConfidence (m3 ex) \<and> \<not> lowConfidence (fecha ex))"
  by (simp add: lowConfidenceFields_def lowConfidenceEntry_def lowConfidence_def
      CONFIDENCE_THRESHOLD_def)

lemma lowConfidenceFields_filter:
  "lowConfidenceFields ex =
     map (\<lambda>(f, e). f @ '' ('' @ toFixed0 (confianza e * 100) @ ''%)'')
       (filter (\<lambda>(f, e). confianza e < 7 / 10)
          [(''numeroVale'', numeroVale ex), (''placa'', placa ex), (''m3'', m3 ex),
           (''fecha'', fecha ex)])"
  by (simp add: lowConfidenceFields_def lowConfidenceEntry_def CONFIDENCE_THRESHOLD_def)

lemma sample_placa:
  "comparePlaca ''ttn893'' (JStr ''TTN893'') = Inr \<lparr>coincide = True, observacion = []\<rparr>"
  by code_simp

lemma sample_m3: "m3Match ''16.00'' ''16''"
  by (simp add: m3Match_def scan_defs)

lemma sample_fecha:
  "compareDates utc ''12/12/2025'' (JStr ''10/12/2025'') =
     \<lparr>coincide = True, observacion = withinTolerance (Some 2)\<rparr>"
  by (simp add: compareDates_def parseDate_10_12_2025 parseDate_12_12_2025 diffDays_def
      msPerDay_def)

lemma compareFields_unfold:
  "compareFields tz ex xp =
     (case comparePlaca (valor (placa ex)) (placa xp) of
        Inl e \<Rightarrow> Inl e
      | Inr p \<Rightarrow>
          Inr \<lparr>numeroVale =
                 \<lparr>coincide = (JStr (valor (numeroVale ex)) = numeroVale xp),
                  observacion = (if JStr (valor (numeroVale ex)) = numeroVale xp then []
                                 else numeroValeNote (valor (numeroVale ex)) (numeroVale xp)),
                  extracted = valor (numeroVale ex), expected = numeroVale xp\<rparr>,
               placa =
                 \<lparr>coincide = coincide p, observacion = observacion p,
                  extracted = valor (placa ex), expected = placa xp\<rparr>,
               m3 =
                 \<lparr>coincide = m3Match (valor (m3 ex)) (String_js (m3 xp)),
                  observacion = (if m3Match (valor (m3 ex)) (String_js (m3 xp)) then []
                                 else m3Note (valor (m3 ex)) (String_js (m3 xp))),
                  extracted = valor (m3 ex), expected = JStr (String_js (m3 xp))\<rparr>,
               fecha =
                 \<lparr>coincide = coincide (compareDates tz (valor (fecha ex)) (fecha xp)),
                  observacion = observacion (compareDates tz (valor (fecha ex)) (fecha xp)),
                  extracted = valor (fecha ex), expected = fecha xp\<rparr>\<rparr>)"
  by (simp add: compareFields_def Let_def split: sum.split)

lemma sample_compareFields:
  "compareFields utc (sampleExtraction\<lparr>placa := \<lparr>valor = ''ttn893'', confianza = k\<rparr>\<rparr>) sampleExpected =
     Inr \<lparr>numeroVale = \<lparr>coincide = True, observacion = [], extracted = ''24697'',
                         expected = JStr ''24697''\<rparr>,
          placa = \<lparr>coincide = True, observacion = [], extracted = ''ttn893'',
                    expected = JStr ''TTN893''\<rparr>,
          m3 = \<lparr>coincide = True, observacion = [], extracted = ''16.00'',
                 expected = JStr ''16''\<rparr>,
          fecha = \<lparr>coincide = True, observacion = withinTolerance (Some 2),
                    extracted = ''12/12/2025'', expected = JStr ''10/12/2025''\<rparr>\<rparr>"
  by (simp add: compareFields_unfold sampleExtraction_def sampleExpected_def
      sample_placa sample_m3 sample_fecha)

text \<open>
  Claim C3. When the four extracted values are all non-empty and the four comparisons all
  match, the validator approves (\<open>aprobado\<close>, approval true, no reason) exactly when every
  confidence is at least 0.7; otherwise it asks for manual review, approval false, with the
  reason \<open>Confianza baja en: \<close> followed by the low-confidence fields, each with its
  percentage, in the order numeroVale, placa, m3, fecha.
\<close>

theorem validate_all_match:
  assumes "valor (numeroVale ex) \<noteq> [] \<and> valor (placa ex) \<noteq> [] \<and> valor (m3 ex) \<noteq> []
           \<and> valor (fecha ex) \<noteq> []"
    and "compareFields tz ex xp = Inr c" and "allMatch c"
  shows "validateExtraction tz ex xp validPlacas =
     Inr (if 7 / 10 \<le> confianza (numeroVale ex) \<and> 7 / 10 \<le> confianza (placa ex)
             \<and> 7 / 10 \<le> confianza (m3 ex) \<and> 7 / 10 \<le> confianza (fecha ex)
          then \<lparr>comparaciones = c, aprobado = True, status = ''aprobado'',
                manualReviewReason = None\<rparr>
          else \<lparr>comparaciones = c, aprobado = False, status = ''requiere_revision_manual'',
                manualReviewReason =
                  Some (''Confianza baja en: '' @ join_js '', '' (lowConfidenceFields ex))\<rparr>)
   \<and> lowConfidenceFields ex =
     map (\<lambda>(f, e). f @ '' ('' @ toFixed0 (confianza e * 100) @ ''%)'')
       (filter (\<lambda>(f, e). confianza e < 7 / 10)
          [(''numeroVale'', numeroVale ex), (''placa'', placa ex), (''m3'', m3 ex),
           (''fecha'', fecha ex)])"
proof -
  have e: "\<not> hasEmptyExtraction ex" using assms(1) by (simp add: hasEmptyExtraction_def)
  have "validateExtraction tz ex xp validPlacas =
     Inr (if lowConfidenceFields ex = []
          then \<lparr>comparaciones = c, aprobado = True, status = ''aprobado'',
                manualReviewReason = None\<rparr>
          else \<lparr>comparaciones = c, aprobado = False, status = ''requiere_revision_manual'',
                manualReviewReason =
                  Some (''Confianza baja en: '' @ join_js '', '' (lowConfidenceFields ex))\<rparr>)"
    using e assms(2,3) by (simp add: validateExtraction_def Let_def)
  moreover have "(lowConfidenceFields ex = []) =
     (7 / 10 \<le> confianza (numeroVale ex) \<and> 7 / 10 \<le> confianza (placa ex)
             \<and> 7 / 10 \<le> confianza (m3 ex) \<and> 7 / 10 \<le> confianza (fecha ex))"
    by (simp add: lowConfidenceFields_empty lowConfidence_def not_less)
  ultimately show ?thesis using lowConfidenceFields_filter [of ex] by simp
qed


text \<open>The instance the specification names: every field matches and the placa was read with
  confidence 0.5.\<close>

theorem validate_all_match_witness:
  "\<not> isl (validateExtraction utc (sampleExtraction\<lparr>placa := \<lparr>valor = ''ttn893'', confianza = 1 / 2\<rparr>\<rparr>)
            sampleExpected [])
   \<and> status (projr (validateExtraction utc
          (sampleExtraction\<lparr>placa := \<lparr>valor = ''ttn893'', confianza = 1 / 2\<rparr>\<rparr>)
          sampleExpected [])) = ''requiere_revision_manual''
   \<and> \<not> aprobado (projr (validateExtraction utc
          (sampleExtraction\<lparr>placa := \<lparr>valor = ''ttn893'', confianza = 1 / 2\<rparr>\<rparr>)
          sampleExpected []))
   \<and> manualReviewReason (projr (validateExtraction utc
          (sampleExtraction\<lparr>placa := \<lparr>valor = ''ttn893'', confianza = 1 / 2\<rparr>\<rparr>)
          sampleExpected [])) = Some ''Confianza baja en: placa (50%)''"
proof -
  let ?ex = "sampleExtraction\<lparr>placa := \<lparr>valor = ''ttn893'', confianza = 1 / 2\<rparr>\<rparr>"
  have h1: "valor (numeroVale ?ex) \<noteq> [] \<and> valor (placa ?ex) \<noteq> [] \<and> valor (m3 ?ex) \<noteq> []
           \<and> valor (fecha ?ex) \<noteq> []"
    by (simp add: sampleExtraction_def)
  have h3: "allMatch \<lparr>numeroVale = \<lparr>coincide = True, observacion = [], extracted = ''24697'',
                         expected = JStr ''24697''\<rparr>,
          placa = \<lparr>coincide = True, observacion = [], extracted = ''ttn893'',
                    expected = JStr ''TTN893''\<rparr>,
          m3 = \<lparr>coincide = True, observacion = [], extracted = ''16.00'',
                 expected = JStr ''16''\<rparr>,
          fecha = \<lparr>coincide = True, observacion = withinTolerance (Some 2),
                    extracted = ''12/12/2025'', expected = JStr ''10/12/2025''\<rparr>\<rparr>"
    by (simp add: allMatch_def)
  have "digitsOf 50 = ''50''" by code_simp
  then have tf: "toFixed0 50 = ''50''" by (simp add: toFixed0_def del: digitsOf.simps)
  show ?thesis
    using validate_all_match [OF h1 sample_compareFields h3, of "[]"]
    by (simp add: sampleExtraction_def tf)
qed


text \<open>
  Claim C2. When at least one of the four extracted values is the empty string, the
  validator returns \<open>requiere_revision_manual\<close>, approval false, with the reason that one or
  more fields could not be extracted, whatever the comparisons and the confidences are.
  The reference placa is a string, as the extraction step builds every row (a missing
  vehicle gives the empty string), or the empty value is the placa itself.
\<close>

theorem validate_empty:
  assumes "valor (numeroVale ex) = [] \<or> valor (placa ex) = [] \<or> valor (m3 ex) = []
           \<or> valor (fecha ex) = []"
    and "isString (placa xp) \<or> valor (placa ex) = []"
  shows "\<exists>c. compareFields tz ex xp = Inr c \<and>
     validateExtraction tz ex xp validPlacas =
       Inr \<lparr>comparaciones = c, aprobado = False, status = ''requiere_revision_manual'',
            manualReviewReason = Some camposNoExtraidos\<rparr>"
proof -
  from compareFields_total [OF assms(2)] obtain c where c: "compareFields tz ex xp = Inr c" by blast
  with assms(1) show ?thesis
    by (simp add: validateExtraction_def hasEmptyExtraction_def)
qed

text \<open>An unread numeroVale next to three fields that match with high confidence.\<close>

theorem validate_empty_witness:
  "\<not> isl (validateExtraction utc (sampleExtraction\<lparr>numeroVale := \<lparr>valor = [], confianza = 0\<rparr>\<rparr>)
            sampleExpected [])
   \<and> status (projr (validateExtraction utc
          (sampleExtraction\<lparr>numeroVale := \<lparr>valor = [], confianza = 0\<rparr>\<rparr>)
          sampleExpected [])) = ''requiere_revision_manual''
   \<and> \<not> aprobado (projr (validateExtraction utc
          (sampleExtraction\<lparr>numeroVale := \<lparr>valor = [], confianza = 0\<rparr>\<rparr>)
          sampleExpected []))
   \<and> manualReviewReason (projr (validateExtraction utc
          (sampleExtraction\<lparr>numeroVale := \<lparr>valor = [], confianza = 0\<rparr>\<rparr>)
          sampleExpected [])) = Some camposNoExtraidos"
proof -
  let ?ex = "sampleExtraction\<lparr>numeroVale := \<lparr>valor = [], confianza = 0\<rparr>\<rparr>"
  have h1: "valor (numeroVale ?ex) = [] \<or> valor (placa ?ex) = [] \<or> valor (m3 ?ex) = []
           \<or> valor (fecha ?ex) = []" by simp
  have h2: "isString (placa sampleExpected) \<or> valor (placa ?ex) = []"
    by (simp add: isString_def sampleExpected_def)
  from validate_empty [OF h1 h2, where tz = utc and validPlacas = "[]"] show ?thesis by auto
qed

text \<open>
  Claim C1, as the code has it. When the four extracted values are all non-empty and not
  all comparisons match, the validator asks for manual review, approval false, as soon as
  any of the four fields, matched or not, was read with a confidence below 0.7; it reports
  \<open>inconsistencias_encontradas\<close>, approval false and no reason, only when all four
  confidences are at least 0.7. A low confidence on a mismatched field is one such case.
\<close>

theorem validate_mismatch:
  assumes "valor (numeroVale ex) \<noteq> [] \<and> valor (placa ex) \<noteq> [] \<and> valor (m3 ex) \<noteq> []
           \<and> valor (fecha ex) \<noteq> []"
    and "compareFields tz ex xp = Inr c" and "\<not> allMatch c"
  shows "validateExtraction tz ex xp validPlacas =
     Inr (if confianza (numeroVale ex) < 7 / 10 \<or> confianza (placa ex) < 7 / 10
             \<or> confianza (m3 ex) < 7 / 10 \<or> confianza (fecha ex) < 7 / 10
          then \<lparr>comparaciones = c, aprobado = False, status = ''requiere_revision_manual'',
                manualReviewReason =
                  Some (''Inconsistencias con confianza baja en: ''
                        @ join_js '', '' (lowConfidenceFields ex))\<rparr>
          else \<lparr>comparaciones = c, aprobado = False,
                status = ''inconsistencias_encontradas'', manualReviewReason = None\<rparr>)
   \<and> (lowConfidenceOnMismatch c ex \<longrightarrow>
        confianza (numeroVale ex) < 7 / 10 \<or> confianza (placa ex) < 7 / 10
        \<or> confianza (m3 ex) < 7 / 10 \<or> confianza (fecha ex) < 7 / 10)"
proof -
  have e: "\<not> hasEmptyExtraction ex" using assms(1) by (simp add: hasEmptyExtraction_def)
  have "validateExtraction tz ex xp validPlacas =
     Inr (if lowConfidenceFields ex \<noteq> []
          then \<lparr>comparaciones = c, aprobado = False, status = ''requiere_revision_manual'',
                manualReviewReason =
                  Some (''Inconsistencias con confianza baja en: ''
                        @ join_js '', '' (lowConfidenceFields ex))\<rparr>
          else \<lparr>comparaciones = c, aprobado = False,
                status = ''inconsistencias_encontradas'', manualReviewReason = None\<rparr>)"
    using e assms(2,3) by (simp add: validateExtraction_def Let_def)
  moreover have "(lowConfidenceFields ex \<noteq> []) =
     (confianza (numeroVale ex) < 7 / 10 \<or> confianza (placa ex) < 7 / 10
             \<or> confianza (m3 ex) < 7 / 10 \<or> confianza (fecha ex) < 7 / 10)"
    by (auto simp add: lowConfidenceFields_empty lowConfidence_def)
  ultimately show ?thesis by (auto simp: lowConfidenceOnMismatch_def lowConfidence_def)
qed

lemma mismatch_compareFields:
  "compareFields utc (sampleExtraction\<lparr>numeroVale := \<lparr>valor = ''24691'', confianza = 1\<rparr>,
                                    placa := \<lparr>valor = ''ttn893'', confianza = k\<rparr>\<rparr>)
      sampleExpected =
     Inr \<lparr>numeroVale = \<lparr>coincide = False,
                         observacion = numeroValeNote ''24691'' (JStr ''24697''),
                         extracted = ''24691'', expected = JStr ''24697''\<rparr>,
          placa = \<lparr>coincide = True, observacion = [], extracted = ''ttn893'',
                    expected = JStr ''TTN893''\<rparr>,
          m3 = \<lparr>coincide = True, observacion = [], extracted = ''16.00'',
                 expected = JStr ''16''\<rparr>,
          fecha = \<lparr>coincide = True, observacion = withinTolerance (Some 2),
                    extracted = ''12/12/2025'', expected = JStr ''10/12/2025''\<rparr>\<rparr>"
  by (simp add: compareFields_unfold sampleExtraction_def sampleExpected_def
      sample_placa sample_m3 sample_fecha)

text \<open>A confident mismatch: the numeroVale differs and every field was read with confidence
  of 0.9 or more.\<close>

theorem validate_mismatch_witness:
  "validateExtraction utc (sampleExtraction\<lparr>numeroVale := \<lparr>valor = ''24691'', confianza = 1\<rparr>,
                                         placa := \<lparr>valor = ''ttn893'', confianza = 9 / 10\<rparr>\<rparr>)
      sampleExpected [] =
     Inr \<lparr>comparaciones =
            \<lparr>numeroVale = \<lparr>coincide = False,
                         observacion = numeroValeNote ''24691'' (JStr ''24697''),
                         extracted = ''24691'', expected = JStr ''24697''\<rparr>,
             placa = \<lparr>coincide = True, observacion = [], extracted = ''ttn893'',
                    expected = JStr ''TTN893''\<rparr>,
             m3 = \<lparr>coincide = True, observacion = [], extracted = ''16.00'',
                 expected = JStr ''16''\<rparr>,
             fecha = \<lparr>coincide = True, observacion = withinTolerance (Some 2),
                    extracted = ''12/12/2025'', expected = JStr ''10/12/2025''\<rparr>\<rparr>,
          aprobado = False, status = ''inconsistencias_encontradas'',
          manualReviewReason = None\<rparr>"
proof -
  let ?ex = "sampleExtraction\<lparr>numeroVale := \<lparr>valor = ''24691'', confianza = 1\<rparr>,
                              placa := \<lparr>valor = ''ttn893'', confianza = 9 / 10\<rparr>\<rparr>"
  have h1: "valor (numeroVale ?ex) \<noteq> [] \<and> valor (placa ?ex) \<noteq> [] \<and> valor (m3 ?ex) \<noteq> []
           \<and> valor (fecha ?ex) \<noteq> []"
    by (simp add: sampleExtraction_def)
  have h3: "\<not> allMatch \<lparr>numeroVale = \<lparr>coincide = False,
                         observacion = numeroValeNote ''24691'' (JStr ''24697''),
                         extracted = ''24691'', expected = JStr ''24697''\<rparr>,
             placa = \<lparr>coincide = True, observacion = [], extracted = ''ttn893'',
                    expected = JStr ''TTN893''\<rparr>,
             m3 = \<lparr>coincide = True, observacion = [], extracted = ''16.00'',
                 expected = JStr ''16''\<rparr>,
             fecha = \<lparr>coincide = True, observacion = withinTolerance (Some 2),
                    extracted = ''12/12/2025'', expected = JStr ''10/12/2025''\<rparr>\<rparr>"
    by (simp add: allMatch_def)
  show ?thesis
    using validate_mismatch [OF h1 mismatch_compareFields h3, of "[]"]
    by (simp add: sampleExtraction_def)
qed

text \<open>
  The claim C1 as it is worded fails where the only mismatched field was read with high
  confidence and a matching field with low confidence: the numeroVale differs (confidence
  1), the placa matches (confidence 0.5), and the result is manual review, not
  \<open>inconsistencias_encontradas\<close>.
\<close>

theorem mismatch_policy_counterexample:
  "valor (numeroVale (sampleExtraction\<lparr>numeroVale := \<lparr>valor = ''24691'', confianza = 1\<rparr>,
                                        placa := \<lparr>valor = ''ttn893'', confianza = 1 / 2\<rparr>\<rparr>)) \<noteq> []
   \<and> valor (placa (sampleExtraction\<lparr>numeroVale := \<lparr>valor = ''24691'', confianza = 1\<rparr>,
                                     placa := \<lparr>valor = ''ttn893'', confianza = 1 / 2\<rparr>\<rparr>)) \<noteq> []
   \<and> valor (m3 (sampleExtraction\<lparr>numeroVale := \<lparr>valor = ''24691'', confianza = 1\<rparr>,
                                  placa := \<lparr>valor = ''ttn893'', confianza = 1 / 2\<rparr>\<rparr>)) \<noteq> []
   \<and> valor (fecha (sampleExtraction\<lparr>numeroVale := \<lparr>valor = ''24691'', confianza = 1\<rparr>,
                                     placa := \<lparr>valor = ''ttn893'', confianza = 1 / 2\<rparr>\<rparr>)) \<noteq> []
   \<and> \<not> isl (compareFields utc
          (sampleExtraction\<lparr>numeroVale := \<lparr>valor = ''24691'', confianza = 1\<rparr>,
                             placa := \<lparr>valor = ''ttn893'', confianza = 1 / 2\<rparr>\<rparr>)
          sampleExpected)
   \<and> \<not> allMatch (projr (compareFields utc
          (sampleExtraction\<lparr>numeroVale := \<lparr>valor = ''24691'', confianza = 1\<rparr>,
                             placa := \<lparr>valor = ''ttn893'', confianza = 1 / 2\<rparr>\<rparr>)
          sampleExpected))
   \<and> \<not> lowConfidenceOnMismatch
        (projr (compareFields utc
          (sampleExtraction\<lparr>numeroVale := \<lparr>valor = ''24691'', confianza = 1\<rparr>,
                             placa := \<lparr>valor = ''ttn893'', confianza = 1 / 2\<rparr>\<rparr>)
          sampleExpected))
        (sampleExtraction\<lparr>numeroVale := \<lparr>valor = ''24691'', confianza = 1\<rparr>,
                           placa := \<lparr>valor = ''ttn893'', confianza = 1 / 2\<rparr>\<rparr>)
   \<and> \<not> isl (validateExtraction utc
          (sampleExtraction\<lparr>numeroVale := \<lparr>valor = ''24691'', confianza = 1\<rparr>,
                             placa := \<lparr>valor = ''ttn893'', confianza = 1 / 2\<rparr>\<rparr>)
          sampleExpected [])
   \<and> status (projr (validateExtraction utc
          (sampleExtraction\<lparr>numeroVale := \<lparr>valor = ''24691'', confianza = 1\<rparr>,
                             placa := \<lparr>valor = ''ttn893'', confianza = 1 / 2\<rparr>\<rparr>)
          sampleExpected [])) = ''requiere_revision_manual''
   \<and> status (projr (validateExtraction utc
          (sampleExtraction\<lparr>numeroVale := \<lparr>valor = ''24691'', confianza = 1\<rparr>,
                             placa := \<lparr>valor = ''ttn893'', confianza = 1 / 2\<rparr>\<rparr>)
          sampleExpected [])) \<noteq> ''inconsistencias_encontradas''"
proof -
  let ?ex = "sampleExtraction\<lparr>numeroVale := \<lparr>valor = ''24691'', confianza = 1\<rparr>,
                              placa := \<lparr>valor = ''ttn893'', confianza = 1 / 2\<rparr>\<rparr>"
  let ?c = "\<lparr>numeroVale = \<lparr>coincide = False,
                         observacion = numeroValeNote ''24691'' (JStr ''24697''),
                         extracted = ''24691'', expected = JStr ''24697''\<rparr>,
          placa = \<lparr>coincide = True, observacion = [], extracted = ''ttn893'',
                    expected = JStr ''TTN893''\<rparr>,
          m3 = \<lparr>coincide = True, observacion = [], extracted = ''16.00'',
                 expected = JStr ''16''\<rparr>,
          fecha = \<lparr>coincide = True, observacion = withinTolerance (Some 2),
                    extracted = ''12/12/2025'', expected = JStr ''10/12/2025''\<rparr>\<rparr>"
  have cf: "compareFields utc ?ex sampleExpected = Inr ?c"
    by (rule mismatch_compareFields)
  have ne: "\<not> hasEmptyExtraction ?ex"
    by (simp add: hasEmptyExtraction_def sampleExtraction_def)
  have am: "\<not> allMatch ?c" by (simp add: allMatch_def)
  have lm: "\<not> lowConfidenceOnMismatch ?c ?ex"
    by (simp add: lowConfidenceOnMismatch_def lowConfidence_def sampleExtraction_def)
  have low: "lowConfidenceFields ?ex \<noteq> []"
    by (simp add: lowConfidenceFields_def lowConfidenceEntry_def CONFIDENCE_THRESHOLD_def
        sampleExtraction_def)
  have v: "validateExtraction utc ?ex sampleExpected [] =
     Inr \<lparr>comparaciones = ?c, aprobado = False, status = ''requiere_revision_manual'',
          manualReviewReason =
            Some (''Inconsistencias con confianza baja en: ''
                  @ join_js '', '' (lowConfidenceFields ?ex))\<rparr>"
    unfolding validateExtraction_def cf using ne am low by (simp add: Let_def)
  show ?thesis
    unfolding cf v using ne am lm by (simp add: hasEmptyExtraction_def)
qed

text \<open>
  Claim C10. With a non-empty extracted placa and a reference placa that is \<open>null\<close> or
  \<open>undefined\<close>, \<open>comparePlaca\<close> throws a TypeError, and \<open>validateExtraction\<close> throws the
  same error. With a reference placa that is a string the comparison returns: for a
  non-empty extracted placa the match is the equality of the two sides after \<open>trim\<close> and
  \<open>toUpperCase\<close> (an empty extracted placa never matches), and \<open>validateExtraction\<close>
  returns a result.
\<close>

theorem comparePlaca_partial:
  "(valor (placa ex) \<noteq> [] \<and> (placa xp = JNull \<or> placa xp = JUndefined) \<longrightarrow>
      (\<exists>e. comparePlaca (valor (placa ex)) (placa xp) = Inl e
            \<and> validateExtraction tz ex xp validPlacas = Inl e \<and> name e = ''TypeError''))
   \<and> (\<exists>m. comparePlaca p (JStr s) = Inr m
          \<and> (p \<noteq> [] \<longrightarrow> coincide m = (toUpperCase_js (trim_js p) = toUpperCase_js (trim_js s)))
          \<and> (p = [] \<longrightarrow> \<not> coincide m))
   \<and> (isString (placa xp) \<longrightarrow> (\<exists>v. validateExtraction tz ex xp validPlacas = Inr v))"
proof (intro conjI impI)
  assume a: "valor (placa ex) \<noteq> [] \<and> (placa xp = JNull \<or> placa xp = JUndefined)"
  then show "\<exists>e. comparePlaca (valor (placa ex)) (placa xp) = Inl e
            \<and> validateExtraction tz ex xp validPlacas = Inl e \<and> name e = ''TypeError''"
    by (auto simp: validateExtraction_def compareFields_unfold comparePlaca_def trimOf_def
        TypeError_def)
next
  show "\<exists>m. comparePlaca p (JStr s) = Inr m
          \<and> (p \<noteq> [] \<longrightarrow> coincide m = (toUpperCase_js (trim_js p) = toUpperCase_js (trim_js s)))
          \<and> (p = [] \<longrightarrow> \<not> coincide m)"
    by (simp add: comparePlaca_def trimOf_def Let_def)
next
  assume "isString (placa xp)"
  then obtain c where "compareFields tz ex xp = Inr c"
    using compareFields_total [of xp ex] by blast
  then show "\<exists>v. validateExtraction tz ex xp validPlacas = Inr v"
    by (simp add: validateExtraction_def Let_def)
qed

text \<open>The sample row with its placa set to \<open>null\<close>, and the sample row as it is.\<close>

theorem comparePlaca_partial_witness:
  "validateExtraction utc sampleExtraction (sampleExpected\<lparr>placa := JNull\<rparr>) [] =
     Inl (TypeError ''Cannot read properties of null (reading 'trim')'')
   \<and> \<not> isl (validateExtraction utc sampleExtraction sampleExpected [])"
proof -
  have h: "valor (placa sampleExtraction) \<noteq> []
           \<and> (placa (sampleExpected\<lparr>placa := JNull\<rparr>) = JNull
                \<or> placa (sampleExpected\<lparr>placa := JNull\<rparr>) = JUndefined)"
    by (simp add: sampleExtraction_def)
  have c: "comparePlaca (valor (placa sampleExtraction)) (placa (sampleExpected\<lparr>placa := JNull\<rparr>))
           = Inl (TypeError ''Cannot read properties of null (reading 'trim')'')"
    by (simp add: comparePlaca_def trimOf_def sampleExtraction_def)
  have s: "isString (placa sampleExpected)" by (simp add: isString_def sampleExpected_def)
  from comparePlaca_partial [of sampleExtraction "sampleExpected\<lparr>placa := JNull\<rparr>" utc "[]" "[]" "[]"]
       h c
  have 1: "validateExtraction utc sampleExtraction (sampleExpected\<lparr>placa := JNull\<rparr>) [] =
     Inl (TypeError ''Cannot read properties of null (reading 'trim')'')" by auto
  from comparePlaca_partial [of sampleExtraction sampleExpected utc "[]" "[]" "[]"] s
  have 2: "\<not> isl (validateExtraction utc sampleExtraction sampleExpected [])" by auto
  from 1 2 show ?thesis by simp
qed

section \<open>Date strings and calendar days\<close>

lemma trim_js_id:
  assumes "\<forall>c \<in> set s. \<not> isWhiteSpace c"
  shows "trim_js s = s"
proof -
  have a: "dropWhile isWhiteSpace s = s" using assms by (cases s) auto
  have "dropWhile isWhiteSpace (rev s) = rev s" using assms by (cases "rev s") auto
  with a show ?thesis by (simp add: trim_js_def)
qed

lemma isDigit_not_space: "isDigit c \<Longrightarrow> \<not> isWhiteSpace c"
  by (auto simp: isDigit_def isWhiteSpace_def)

lemma isDigit_not_sign: "isDigit c \<Longrightarrow> c \<noteq> CHR ''-'' \<and> c \<noteq> CHR ''+'' \<and> c \<noteq> CHR ''/''"
  by (auto simp: isDigit_def)

lemma isDigit_not_radix: "isDigit c \<Longrightarrow> c \<notin> set ''xX'' \<and> c \<notin> set ''oO'' \<and> c \<notin> set ''bB''"
  by (auto simp: isDigit_def)

lemma scanDecimal_digits:
  assumes "digitString ds"
  shows "scanDecimal ds = Some (real (digitsValue ds), [])"
proof -
  from assms obtain c cs where ds: "ds = c # cs" and c: "isDigit c" and all: "\<forall>x \<in> set ds. isDigit x"
    by (cases ds) (auto simp: digitString_def list_all_iff)
  have s: "scanSign ds = (False, ds)"
    using isDigit_not_sign [OF c] by (simp add: scanSign_def ds)
  have t: "takeWhile isDigit ds = ds" and d: "dropWhile isDigit ds = []"
    using all by auto
  have ne: "ds \<noteq> []" using ds by simp
  show ?thesis
    using ne by (simp add: scanDecimal_def s t d scanExponent_def)
qed

lemma Number_js_digits:
  assumes "digitString ds"
  shows "Number_js ds = Some (real (digitsValue ds))"
proof -
  from assms have all: "\<forall>x \<in> set ds. isDigit x" and ne: "ds \<noteq> []"
    by (auto simp: digitString_def list_all_iff)
  have t: "trim_js ds = ds"
    using all by (intro trim_js_id) (auto dest: isDigit_not_space)
  have r: "2 \<le> length ds \<Longrightarrow> ds ! 1 \<notin> set ''xX'' \<and> ds ! 1 \<notin> set ''oO'' \<and> ds ! 1 \<notin> set ''bB''"
    using all isDigit_not_radix by (metis One_nat_def Suc_1 Suc_le_lessD nth_mem)
  show ?thesis
    using ne r by (auto simp add: Number_js_def t scanDecimal_digits [OF assms] Let_def)
qed

lemma split_js_nosep:
  "sep \<notin> set a \<Longrightarrow> split_js sep a = [a]"
  by (induction a) auto

lemma split_js_append:
  "sep \<notin> set a \<Longrightarrow> split_js sep (a @ sep # b) = a # split_js sep b"
  by (induction a) auto

lemma split_dmy:
  assumes "digitString dd" "digitString mm" "digitString yyyy"
  shows "split_js CHR ''/'' (dd @ ''/'' @ mm @ ''/'' @ yyyy) = [dd, mm, yyyy]"
proof -
  have n: "\<And>ds. digitString ds \<Longrightarrow> CHR ''/'' \<notin> set ds"
    by (auto simp: digitString_def list_all_iff dest: isDigit_not_sign)
  show ?thesis
    using n [OF assms(1)] n [OF assms(2)] n [OF assms(3)]
    by (simp add: split_js_append split_js_nosep)
qed


lemma div_step:
  fixes z k :: int
  assumes "0 < k"
  shows "(z + 1) div k = z div k + (if (z + 1) mod k = 0 then 1 else 0)"
proof (cases "(z + 1) mod k = 0")
  case True
  then obtain q where q: "z + 1 = k * q" by (auto simp: mod_eq_0_iff_dvd)
  then have z: "z = k * (q - 1) + (k - 1)" by (simp add: algebra_simps)
  have "z div k = q - 1"
    by (rule int_div_pos_eq [OF z]) (use assms in simp_all)
  moreover have "(z + 1) div k = q" using q assms by simp
  ultimately show ?thesis using True by simp
next
  case False
  have r: "0 \<le> z mod k" "z mod k < k" using assms by simp_all
  have "z mod k \<noteq> k - 1"
  proof
    assume e: "z mod k = k - 1"
    have "(z + 1) mod k = (z mod k + 1) mod k" by (simp add: mod_add_left_eq)
    also have "\<dots> = 0" by (simp add: e)
    finally show False using False by simp
  qed
  with r have lt: "z mod k + 1 < k" by linarith
  have eq: "z + 1 = k * (z div k) + (z mod k + 1)" by simp
  have "(z + 1) div k = z div k"
    by (rule int_div_pos_eq [OF eq]) (use r lt in simp_all)
  then show ?thesis using False by simp
qed

lemma leap_mods:
  fixes y :: int
  shows "((y - 1968) mod 4 = 0) = (y mod 4 = 0)"
    and "((y - 1900) mod 100 = 0) = (y mod 100 = 0)"
    and "((y - 1600) mod 400 = 0) = (y mod 400 = 0)"
proof -
  have "(y + 4 * (- 492)) mod 4 = y mod 4" by (rule mod_mult_self2)
  then show "((y - 1968) mod 4 = 0) = (y mod 4 = 0)" by simp
  have "(y + 100 * (- 19)) mod 100 = y mod 100" by (rule mod_mult_self2)
  then show "((y - 1900) mod 100 = 0) = (y mod 100 = 0)" by simp
  have "(y + 400 * (- 4)) mod 400 = y mod 400" by (rule mod_mult_self2)
  then show "((y - 1600) mod 400 = 0) = (y mod 400 = 0)" by simp
qed

lemma leap_chain:
  fixes y :: int
  shows "y mod 400 = 0 \<Longrightarrow> y mod 100 = 0" and "y mod 100 = 0 \<Longrightarrow> y mod 4 = 0"
proof -
  assume "y mod 400 = 0"
  then have "400 dvd y" by (simp add: mod_eq_0_iff_dvd)
  moreover have "(100::int) dvd 400" by simp
  ultimately have "100 dvd y" by (rule dvd_trans [rotated])
  then show "y mod 100 = 0" by (simp add: mod_eq_0_iff_dvd)
next
  assume "y mod 100 = 0"
  then have "100 dvd y" by (simp add: mod_eq_0_iff_dvd)
  moreover have "(4::int) dvd 100" by simp
  ultimately have "4 dvd y" by (rule dvd_trans [rotated])
  then show "y mod 4 = 0" by (simp add: mod_eq_0_iff_dvd)
qed

lemma DayFromYear_step:
  "DayFromYear (1 + y) = DayFromYear y + (if InLeapYear y then 366 else 365)"
proof -
  have a: "(1 + y - 1969) div 4 = (y - 1969) div 4 + (if y mod 4 = 0 then 1 else 0)"
    using div_step [of 4 "y - 1969"] leap_mods(1) [of y] by (simp add: algebra_simps)
  have b: "(1 + y - 1901) div 100 = (y - 1901) div 100 + (if y mod 100 = 0 then 1 else 0)"
    using div_step [of 100 "y - 1901"] leap_mods(2) [of y] by (simp add: algebra_simps)
  have c: "(1 + y - 1601) div 400 = (y - 1601) div 400 + (if y mod 400 = 0 then 1 else 0)"
    using div_step [of 400 "y - 1601"] leap_mods(3) [of y] by (simp add: algebra_simps)
  show ?thesis
    unfolding DayFromYear_def InLeapYear_def a b c
    using leap_chain [of y] by (auto simp: algebra_simps)
qed

lemma InLeapYear_nat: "InLeapYear (int y) = leapYear y"
  unfolding InLeapYear_def leapYear_def by presburger


lemma daysBeforeYear_closed:
  "int (daysBeforeYear y) = DayFromYear (int y) - DayFromYear 0"
proof (induction y)
  case 0
  show ?case by simp
next
  case (Suc y)
  show ?case using Suc DayFromYear_step [of "int y"] by (simp add: InLeapYear_nat)
qed

lemma DayFromMonth_calendar:
  assumes "1 \<le> m" "m \<le> 12"
  shows "DayFromMonth (m - 1) (leapYear y) = int (daysBeforeMonth y m)"
proof -
  from assms have "m = 1 \<or> m = 2 \<or> m = 3 \<or> m = 4 \<or> m = 5 \<or> m = 6 \<or> m = 7 \<or> m = 8
      \<or> m = 9 \<or> m = 10 \<or> m = 11 \<or> m = 12" by arith
  then show ?thesis
    by (elim disjE)
       (simp_all add: DayFromMonth_def daysBeforeMonth_def daysInMonth_def upt_conv_Cons)
qed

lemma split_dmy_cons:
  assumes "digitString dd" "digitString mm" "digitString yyyy"
  shows "split_js CHR ''/'' (dd @ CHR ''/'' # mm @ CHR ''/'' # yyyy) = [dd, mm, yyyy]"
  using split_dmy [OF assms] by simp

lemma daysBeforeYear_bound: "daysBeforeYear y \<le> 366 * y"
  by (induction y) auto

lemma daysBeforeMonth_bound:
  assumes "1 \<le> m" "m \<le> 12"
  shows "daysBeforeMonth y m \<le> 335"
proof -
  from assms have "m = 1 \<or> m = 2 \<or> m = 3 \<or> m = 4 \<or> m = 5 \<or> m = 6 \<or> m = 7 \<or> m = 8
      \<or> m = 9 \<or> m = 10 \<or> m = 11 \<or> m = 12" by arith
  then show ?thesis
    by (elim disjE) (simp_all add: daysBeforeMonth_def daysInMonth_def upt_conv_Cons)
qed

lemma daysInMonth_bound: "daysInMonth y m \<le> 31"
  by (simp add: daysInMonth_def)

lemma ToIntegerOrInfinity_nat: "ToIntegerOrInfinity (real n) = int n"
  by (simp add: ToIntegerOrInfinity_def)

lemma ToIntegerOrInfinity_pred: "1 \<le> n \<Longrightarrow> ToIntegerOrInfinity (real n - 1) = int n - 1"
proof -
  assume "1 \<le> n"
  then have "real n - 1 = real_of_int (int n - 1)" by simp
  then show ?thesis using \<open>1 \<le> n\<close> by (simp add: ToIntegerOrInfinity_def del: of_int_diff)
qed

lemma DayFromYear_0: "DayFromYear 0 = - 719528"
  by (simp add: DayFromYear_def)

lemma calendarDay_closed:
  "calendarDay d m y = DayFromYear (int y) + 719528 + int (daysBeforeMonth y m) + int d"
  using daysBeforeYear_closed [of y] by (simp add: calendarDay_def DayFromYear_0)

lemma calendar_epoch: "calendarDay 1 1 1970 = 719529"
proof -
  have "DayFromYear (int 1970) = 0" by (simp add: DayFromYear_def)
  moreover have "daysBeforeMonth 1970 1 = 0" by (simp add: daysBeforeMonth_def)
  ultimately show ?thesis unfolding calendarDay_closed by simp
qed

lemma MakeDay_calendar:
  assumes "validDate d m y"
  shows "MakeDay (Some (real y)) (Some (real m - 1)) (Some (real d)) =
         Some (calendarDay d m y - calendarDay 1 1 1970)"
proof -
  from assms have m: "1 \<le> m" "m \<le> 12" by (simp_all add: validDate_def)
  have dq: "(int m - 1) div 12 = 0" and mq: "(int m - 1) mod 12 = int m - 1"
    using m by simp_all
  have n: "nat (int m - 1) = m - 1" using m by simp
  have "DayFromYear (int y) + DayFromMonth (m - 1) (InLeapYear (int y)) + int d - 1
        = calendarDay d m y - calendarDay 1 1 1970"
    using calendarDay_closed [of d m y] DayFromMonth_calendar [OF m, of y]
    by (simp only: calendar_epoch InLeapYear_nat)
  then show ?thesis
    by (simp add: MakeDay_def ToIntegerOrInfinity_nat ToIntegerOrInfinity_pred [OF m(1)] dq mq n)
qed

lemma calendarDay_range:
  assumes "validDate d m y" and "y \<le> 9999"
  shows "\<bar>calendarDay d m y - calendarDay 1 1 1970\<bar> \<le> 4000000"
proof -
  from assms(1) have m: "1 \<le> m" "m \<le> 12" and d: "d \<le> daysInMonth y m"
    by (simp_all add: validDate_def)
  have "daysBeforeYear y \<le> 366 * 9999"
    using daysBeforeYear_bound [of y] assms(2) by simp
  moreover note daysBeforeMonth_bound [OF m, of y] daysInMonth_bound [of y m] d
  ultimately have "calendarDay d m y \<le> 366 * 9999 + 335 + 31" and "0 \<le> calendarDay d m y"
    by (simp_all add: calendarDay_def)
  then show ?thesis by (simp only: calendar_epoch)
qed

lemma Date_js_calendar:
  assumes "validDate d m y" and "100 \<le> y" and "y \<le> 9999" and "\<bar>c\<bar> \<le> msPerDay"
  shows "Date_js (fixedOffset c) (Some (real y)) (Some (real m - 1)) (Some (real d)) =
         Some ((calendarDay d m y - calendarDay 1 1 1970) * msPerDay - c)"
proof -
  define k where "k = calendarDay d m y - calendarDay 1 1 1970"
  have k: "\<bar>k\<bar> \<le> 4000000"
    unfolding k_def by (rule calendarDay_range [OF assms(1,3)])
  have "\<bar>k * 86400000 - c\<bar> \<le> \<bar>k * 86400000\<bar> + \<bar>c\<bar>" by (rule abs_triangle_ineq4)
  also have "\<bar>k * 86400000\<bar> = \<bar>k\<bar> * 86400000" by (simp add: abs_mult)
  finally have "\<bar>k * 86400000 - c\<bar> \<le> 8640000000000000"
    using k assms(4) by (simp add: msPerDay_def)
  then show ?thesis
    using assms(2)
    by (simp add: Date_js_def UTC_js_def fixedOffset_def ToIntegerOrInfinity_nat
        MakeDay_calendar [OF assms(1)] TimeClip_def k_def msPerDay_def)
qed

lemma parseDate_dmy:
  assumes "digitString dd" "digitString mm" "digitString yyyy"
  shows "parseDate tz (dd @ ''/'' @ mm @ ''/'' @ yyyy) =
         Date_js tz (Some (real (digitsValue yyyy))) (Some (real (digitsValue mm) - 1))
           (Some (real (digitsValue dd)))"
  by (simp add: parseDate_def Let_def split_dmy_cons [OF assms] element_def
      Number_js_digits [OF assms(1)] Number_js_digits [OF assms(2)]
      Number_js_digits [OF assms(3)])

lemma dayOf_calendar:
  assumes "digitString dd" "digitString mm" "digitString yyyy"
    and "validDate (digitsValue dd) (digitsValue mm) (digitsValue yyyy)"
    and "100 \<le> digitsValue yyyy" and "digitsValue yyyy \<le> 9999" and "\<bar>c\<bar> \<le> msPerDay"
  shows "dayOf c (dd @ ''/'' @ mm @ ''/'' @ yyyy) =
         Some (calendarDay (digitsValue dd) (digitsValue mm) (digitsValue yyyy)
               - calendarDay 1 1 1970)"
  unfolding dayOf_def parseDate_dmy [OF assms(1-3)] Date_js_calendar [OF assms(4-7)]
  by (simp add: msPerDay_def)

lemma TimeClip_Some: "TimeClip x = Some t \<Longrightarrow> x = Some t"
  by (cases x) (auto simp: TimeClip_def split: if_splits)

lemma Date_js_whole_days:
  assumes "Date_js (fixedOffset c) y m d = Some t"
  shows "t = ((t + c) div msPerDay) * msPerDay - c"
proof -
  obtain yr where "Date_js (fixedOffset c) y m d =
      TimeClip (map_option (\<lambda>d. UTC_js (fixedOffset c) (d * msPerDay)) (MakeDay yr m d))"
    by (simp add: Date_js_def Let_def)
  with assms have "map_option (\<lambda>d. UTC_js (fixedOffset c) (d * msPerDay)) (MakeDay yr m d) = Some t"
    by (auto dest: TimeClip_Some)
  then obtain k where "t = k * msPerDay - c" by (auto simp: UTC_js_def fixedOffset_def)
  then show ?thesis by (simp add: msPerDay_def)
qed

lemma parseDate_whole_days:
  "parseDate (fixedOffset c) s = Some t \<Longrightarrow> t = ((t + c) div msPerDay) * msPerDay - c"
  unfolding parseDate_def Let_def by (rule Date_js_whole_days)

lemma diffDays_whole:
  "diffDays (Some (a * msPerDay - c)) (Some (b * msPerDay - c)) = Some \<bar>a - b\<bar>"
proof -
  have e: "(a * msPerDay - c) - (b * msPerDay - c) = (a - b) * msPerDay"
    by (simp add: left_diff_distrib)
  have m: "\<bar>(a - b) * msPerDay\<bar> = \<bar>a - b\<bar> * \<bar>msPerDay\<bar>" by (rule abs_mult)
  have p: "\<bar>msPerDay\<bar> = msPerDay" by (simp add: msPerDay_def)
  have q: "real_of_int (\<bar>a - b\<bar> * msPerDay) / real_of_int msPerDay = real_of_int \<bar>a - b\<bar>"
    by (simp add: msPerDay_def)
  have "diffDays (Some (a * msPerDay - c)) (Some (b * msPerDay - c))
        = Some \<lceil>real_of_int \<bar>(a * msPerDay - c) - (b * msPerDay - c)\<bar> / real_of_int msPerDay\<rceil>"
    by (simp add: diffDays_def)
  also have "\<dots> = Some \<lceil>real_of_int \<bar>a - b\<bar>\<rceil>"
    by (simp only: e m p q)
  finally show ?thesis by (simp only: ceiling_of_int)
qed

lemma diffDays_dayOf:
  assumes "parseDate (fixedOffset c) ex = Some a" "parseDate (fixedOffset c) xp = Some b"
  shows "diffDays (parseDate (fixedOffset c) ex) (parseDate (fixedOffset c) xp) =
         Some \<bar>(a + c) div msPerDay - (b + c) div msPerDay\<bar>"
proof -
  have "diffDays (Some (((a + c) div msPerDay) * msPerDay - c))
          (Some (((b + c) div msPerDay) * msPerDay - c))
        = Some \<bar>(a + c) div msPerDay - (b + c) div msPerDay\<bar>"
    by (rule diffDays_whole)
  moreover have "((a + c) div msPerDay) * msPerDay - c = a"
    using parseDate_whole_days [OF assms(1)] by simp
  moreover have "((b + c) div msPerDay) * msPerDay - c = b"
    using parseDate_whole_days [OF assms(2)] by simp
  ultimately show ?thesis using assms by simp
qed

lemma compareDates_cases:
  "compareDates (fixedOffset c) ex (JStr xp) =
     (if ex = [] \<or> xp = [] then \<lparr>coincide = False, observacion = fechaVacia\<rparr>
      else case (dayOf c ex, dayOf c xp) of
             (Some a, Some b) \<Rightarrow>
               if \<bar>a - b\<bar> = 0 then \<lparr>coincide = True, observacion = []\<rparr>
               else if \<bar>a - b\<bar> \<le> 2
               then \<lparr>coincide = True, observacion = withinTolerance (Some \<bar>a - b\<bar>)\<rparr>
               else \<lparr>coincide = False, observacion = outsideTolerance (Some \<bar>a - b\<bar>)\<rparr>
           | _ \<Rightarrow> \<lparr>coincide = False, observacion = outsideTolerance None\<rparr>)"
proof (cases "ex = [] \<or> xp = []")
  case True
  then show ?thesis by (auto simp: compareDates_def)
next
  case False
  show ?thesis
  proof (cases "parseDate (fixedOffset c) ex")
    case None
    then show ?thesis using False by (simp add: compareDates_def dayOf_def diffDays_def)
  next
    case (Some a)
    note a = this
    show ?thesis
    proof (cases "parseDate (fixedOffset c) xp")
      case None
      then show ?thesis using False a by (simp add: compareDates_def dayOf_def diffDays_def)
    next
      case (Some b)
      have d: "diffDays (parseDate (fixedOffset c) ex) (parseDate (fixedOffset c) xp) =
               Some \<bar>(a + c) div msPerDay - (b + c) div msPerDay\<bar>"
        by (rule diffDays_dayOf [OF a Some])
      show ?thesis
        using False by (simp add: compareDates_def d Let_def) (simp add: dayOf_def a Some)
    qed
  qed
qed

lemma digitsValue_samples:
  "digitsValue ''10'' = 10" "digitsValue ''12'' = 12" "digitsValue ''13'' = 13"
  "digitsValue ''2025'' = 2025"
  by (simp_all add: digitsValue_def digitVal_def)

lemma digitString_samples:
  "digitString ''10''" "digitString ''12''" "digitString ''13''" "digitString ''2025''"
  by (simp_all add: digitString_def isDigit_def)

lemma calendarDay_samples:
  "calendarDay 10 12 2025 - calendarDay 1 1 1970 = 20432"
  "calendarDay 12 12 2025 - calendarDay 1 1 1970 = 20434"
  "calendarDay 13 12 2025 - calendarDay 1 1 1970 = 20435"
  "calendarDay 10 12 2025 - calendarDay (Suc 0) (Suc 0) 1970 = 20432"
  "calendarDay 12 12 2025 - calendarDay (Suc 0) (Suc 0) 1970 = 20434"
  "calendarDay 13 12 2025 - calendarDay (Suc 0) (Suc 0) 1970 = 20435"
proof -
  have l: "\<not> leapYear 2025" by (simp add: leapYear_def)
  have m: "daysBeforeMonth 2025 12 = 334"
    by (simp add: daysBeforeMonth_def daysInMonth_def upt_conv_Cons l)
  have y: "DayFromYear (int 2025) = 20089" by (simp add: DayFromYear_def)
  have e: "calendarDay (Suc 0) (Suc 0) 1970 = 719529" using calendar_epoch by simp
  have a: "calendarDay 10 12 2025 = 739961"
    using calendarDay_closed [of 10 12 2025] m y by simp
  have b: "calendarDay 12 12 2025 = 739963"
    using calendarDay_closed [of 12 12 2025] m y by simp
  have c: "calendarDay 13 12 2025 = 739964"
    using calendarDay_closed [of 13 12 2025] m y by simp
  show "calendarDay 10 12 2025 - calendarDay 1 1 1970 = 20432"
    by (simp add: a e)
  show "calendarDay 12 12 2025 - calendarDay 1 1 1970 = 20434"
    by (simp add: b e)
  show "calendarDay 13 12 2025 - calendarDay 1 1 1970 = 20435"
    by (simp add: c e)
  show "calendarDay 10 12 2025 - calendarDay (Suc 0) (Suc 0) 1970 = 20432"
    by (simp add: a e)
  show "calendarDay 12 12 2025 - calendarDay (Suc 0) (Suc 0) 1970 = 20434"
    by (simp add: b e)
  show "calendarDay 13 12 2025 - calendarDay (Suc 0) (Suc 0) 1970 = 20435"
    by (simp add: c e)
qed

lemma dayOf_samples:
  assumes "\<bar>c\<bar> \<le> msPerDay"
  shows "dayOf c ''10/12/2025'' = Some 20432" "dayOf c ''12/12/2025'' = Some 20434"
    "dayOf c ''13/12/2025'' = Some 20435"
proof -
  have v: "validDate 10 12 2025" "validDate 12 12 2025" "validDate 13 12 2025"
    by (simp_all add: validDate_def daysInMonth_def)
  show "dayOf c ''10/12/2025'' = Some 20432"
    using dayOf_calendar [of "''10''" "''12''" "''2025''" c] digitString_samples v assms
    by (simp add: digitsValue_samples calendarDay_samples)
  show "dayOf c ''12/12/2025'' = Some 20434"
    using dayOf_calendar [of "''12''" "''12''" "''2025''" c] digitString_samples v assms
    by (simp add: digitsValue_samples calendarDay_samples)
  show "dayOf c ''13/12/2025'' = Some 20435"
    using dayOf_calendar [of "''13''" "''12''" "''2025''" c] digitString_samples v assms
    by (simp add: digitsValue_samples calendarDay_samples)
qed

text \<open>
  In a time zone whose offset never changes the comparator is the table of the
  specification. If either string is empty (or the reference date is \<open>null\<close> or
  \<open>undefined\<close>) there is no match and the note says the date is empty or invalid.
  Otherwise both strings are split at the slashes and read as day, month and year; if
  either does not give a date there is no match, with the out-of-tolerance note showing
  \<open>NaN\<close> days. If both give a date, with d the absolute difference of their day numbers:
  d = 0 is a match with an empty note, 0 < d \<le> 2 a match with the within-tolerance note,
  and d > 2 no match with the note that d days exceed the tolerance. For a string in the
  form DD/MM/YYYY that names a date of the calendar (year 100 to 9999), and an offset of
  at most a day, the day number is the day of the calendar, counted from 1 January 1970.
  Against the reference 10/12/2025, 12/12/2025 matches (two days) and 13/12/2025 does not
  (three days).
\<close>

lemma compareDates_fixed_offset:
  "compareDates (fixedOffset c) ex (JStr xp) =
     (if ex = [] \<or> xp = [] then \<lparr>coincide = False, observacion = fechaVacia\<rparr>
      else case (dayOf c ex, dayOf c xp) of
             (Some a, Some b) \<Rightarrow>
               if \<bar>a - b\<bar> = 0 then \<lparr>coincide = True, observacion = []\<rparr>
               else if \<bar>a - b\<bar> \<le> 2
               then \<lparr>coincide = True, observacion = withinTolerance (Some \<bar>a - b\<bar>)\<rparr>
               else \<lparr>coincide = False, observacion = outsideTolerance (Some \<bar>a - b\<bar>)\<rparr>
           | _ \<Rightarrow> \<lparr>coincide = False, observacion = outsideTolerance None\<rparr>)
   \<and> compareDates tz ex JNull = \<lparr>coincide = False, observacion = fechaVacia\<rparr>
   \<and> compareDates tz ex JUndefined = \<lparr>coincide = False, observacion = fechaVacia\<rparr>
   \<and> (digitString dd \<and> digitString mm \<and> digitString yyyy
        \<and> validDate (digitsValue dd) (digitsValue mm) (digitsValue yyyy)
        \<and> 100 \<le> digitsValue yyyy \<and> digitsValue yyyy \<le> 9999 \<and> \<bar>c\<bar> \<le> msPerDay \<longrightarrow>
        dayOf c (dd @ ''/'' @ mm @ ''/'' @ yyyy) =
          Some (calendarDay (digitsValue dd) (digitsValue mm) (digitsValue yyyy)
                - calendarDay 1 1 1970))
   \<and> (\<bar>c\<bar> \<le> msPerDay \<longrightarrow>
        compareDates (fixedOffset c) ''12/12/2025'' (JStr ''10/12/2025'') =
          \<lparr>coincide = True, observacion = withinTolerance (Some 2)\<rparr>
        \<and> compareDates (fixedOffset c) ''13/12/2025'' (JStr ''10/12/2025'') =
          \<lparr>coincide = False, observacion = outsideTolerance (Some 3)\<rparr>)"
proof (intro conjI impI)
  show "compareDates (fixedOffset c) ex (JStr xp) =
     (if ex = [] \<or> xp = [] then \<lparr>coincide = False, observacion = fechaVacia\<rparr>
      else case (dayOf c ex, dayOf c xp) of
             (Some a, Some b) \<Rightarrow>
               if \<bar>a - b\<bar> = 0 then \<lparr>coincide = True, observacion = []\<rparr>
               else if \<bar>a - b\<bar> \<le> 2
               then \<lparr>coincide = True, observacion = withinTolerance (Some \<bar>a - b\<bar>)\<rparr>
               else \<lparr>coincide = False, observacion = outsideTolerance (Some \<bar>a - b\<bar>)\<rparr>
           | _ \<Rightarrow> \<lparr>coincide = False, observacion = outsideTolerance None\<rparr>)"
    by (rule compareDates_cases)
  show "compareDates tz ex JNull = \<lparr>coincide = False, observacion = fechaVacia\<rparr>"
    by (simp add: compareDates_def)
  show "compareDates tz ex JUndefined = \<lparr>coincide = False, observacion = fechaVacia\<rparr>"
    by (simp add: compareDates_def)
next
  assume "digitString dd \<and> digitString mm \<and> digitString yyyy
        \<and> validDate (digitsValue dd) (digitsValue mm) (digitsValue yyyy)
        \<and> 100 \<le> digitsValue yyyy \<and> digitsValue yyyy \<le> 9999 \<and> \<bar>c\<bar> \<le> msPerDay"
  then show "dayOf c (dd @ ''/'' @ mm @ ''/'' @ yyyy) =
          Some (calendarDay (digitsValue dd) (digitsValue mm) (digitsValue yyyy)
                - calendarDay 1 1 1970)"
    by (intro dayOf_calendar) simp_all
next
  assume c: "\<bar>c\<bar> \<le> msPerDay"
  show "compareDates (fixedOffset c) ''12/12/2025'' (JStr ''10/12/2025'') =
          \<lparr>coincide = True, observacion = withinTolerance (Some 2)\<rparr>"
    by (simp add: compareDates_cases dayOf_samples [OF c])
  show "compareDates (fixedOffset c) ''13/12/2025'' (JStr ''10/12/2025'') =
          \<lparr>coincide = False, observacion = outsideTolerance (Some 3)\<rparr>"
    by (simp add: compareDates_cases dayOf_samples [OF c])
qed

text \<open>The time zone the repository itself names for its date strings, America/Bogota:
  five hours behind UTC the whole year.\<close>

lemma compareDates_bogota:
  "dayOf (- 18000000) ''12/12/2025'' = Some 20434
   \<and> dayOf (- 18000000) ''10/12/2025'' = Some 20432
   \<and> compareDates (fixedOffset (- 18000000)) ''12/12/2025'' (JStr ''10/12/2025'') =
       \<lparr>coincide = True, observacion = withinTolerance (Some 2)\<rparr>
   \<and> compareDates (fixedOffset (- 18000000)) ''13/12/2025'' (JStr ''10/12/2025'') =
       \<lparr>coincide = False, observacion = outsideTolerance (Some 3)\<rparr>"
proof -
  have c: "\<bar>- 18000000\<bar> \<le> msPerDay" by (simp add: msPerDay_def)
  from compareDates_fixed_offset [of "- 18000000" "[]" "[]" utc "[]" "[]" "[]"] c
    dayOf_samples [OF c]
  show ?thesis by simp
qed

lemma parseDate_newYork:
  "parseDate newYorkAutumn2025 ''01/11/2025'' = Some 1761969600000"
  "parseDate newYorkAutumn2025 ''03/11/2025'' = Some 1762146000000"
  "parseDate utc ''01/11/2025'' = Some 1761955200000"
  "parseDate utc ''03/11/2025'' = Some 1762128000000"
  by (simp_all add: scan_defs date_defs newYorkAutumn2025_def)

lemma calendarDay_november:
  "calendarDay 3 11 2025 - calendarDay 1 11 2025 = 2"
  by (simp add: calendarDay_def)

text \<open>
  Claim C4. The comparator is documented as comparing two dates with a tolerance of two
  days, and the claim says that every pair of dates at most two days apart matches. The
  dates are made as local midnights, and the difference is taken between their time
  values, rounded up to whole days. Where the clocks were set back between the two dates
  the later midnight is an hour further away: in New York, 1 November 2025 and 3
  November 2025, two days apart on the calendar, are 49 hours apart, which rounds up to
  three days, and the comparator reports no match, three days, out of tolerance. The same
  two strings match, two days apart, when the process runs in UTC.
\<close>

theorem compareDates_clock_change:
  "calendarDay 3 11 2025 - calendarDay 1 11 2025 = 2
   \<and> parseDate newYorkAutumn2025 ''01/11/2025'' = Some 1761969600000
   \<and> parseDate newYorkAutumn2025 ''03/11/2025'' = Some (1761969600000 + 49 * 3600000)
   \<and> compareDates newYorkAutumn2025 ''03/11/2025'' (JStr ''01/11/2025'') =
       \<lparr>coincide = False, observacion = outsideTolerance (Some 3)\<rparr>
   \<and> compareDates utc ''03/11/2025'' (JStr ''01/11/2025'') =
       \<lparr>coincide = True, observacion = withinTolerance (Some 2)\<rparr>"
proof (intro conjI)
  show "calendarDay 3 11 2025 - calendarDay 1 11 2025 = 2"
    by (rule calendarDay_november)
  show "parseDate newYorkAutumn2025 ''01/11/2025'' = Some 1761969600000"
    by (rule parseDate_newYork)
  show "parseDate newYorkAutumn2025 ''03/11/2025'' = Some (1761969600000 + 49 * 3600000)"
    by (simp add: parseDate_newYork)
  show "compareDates newYorkAutumn2025 ''03/11/2025'' (JStr ''01/11/2025'') =
       \<lparr>coincide = False, observacion = outsideTolerance (Some 3)\<rparr>"
    by (simp add: compareDates_def parseDate_newYork diffDays_def msPerDay_def)
  show "compareDates utc ''03/11/2025'' (JStr ''01/11/2025'') =
       \<lparr>coincide = True, observacion = withinTolerance (Some 2)\<rparr>"
    by (simp add: compareDates_def parseDate_newYork diffDays_def msPerDay_def)
qed

section \<open>Properties of the retry loop\<close>

declare attemptLoop.simps [simp del]

lemma attemptLoop_exhausted:
  "\<not> int attempt < maxRetries w \<Longrightarrow>
   attemptLoop w r vp attempt le sl = (Inl le, sl)"
  by (subst attemptLoop.simps) simp

lemma attemptLoop_return:
  "int attempt < maxRetries w \<Longrightarrow> tryBody w r vp attempt = Return g \<Longrightarrow>
   attemptLoop w r vp attempt le sl = (Inr g, sl)"
  by (subst attemptLoop.simps) simp

lemma attemptLoop_continue:
  "int attempt < maxRetries w \<Longrightarrow> tryBody w r vp attempt = Continue e d \<Longrightarrow>
   attemptLoop w r vp attempt le sl = attemptLoop w r vp (attempt + 1) (Some e) (sl @ [d])"
  by (subst attemptLoop.simps) simp

lemma attemptLoop_caught_stop:
  "int attempt < maxRetries w \<Longrightarrow> tryBody w r vp attempt = Caught e \<Longrightarrow>
   \<not> isRetriable e \<or> int attempt = maxRetries w - 1 \<Longrightarrow>
   attemptLoop w r vp attempt le sl = (Inl (Some e), sl)"
  by (subst attemptLoop.simps) auto

lemma attemptLoop_caught_retry:
  "tryBody w r vp attempt = Caught e \<Longrightarrow> isRetriable e \<Longrightarrow> int attempt < maxRetries w - 1 \<Longrightarrow>
   attemptLoop w r vp attempt le sl =
     attemptLoop w r vp (attempt + 1) (Some e) (sl @ [actualDelay attempt e])"
  by (subst attemptLoop.simps) auto

lemma tryBody_extract:
  "readImage w = None \<Longrightarrow> attempt = 0 \<longrightarrow> gatePasses w \<Longrightarrow>
   \<exists>score. tryBody w r vp attempt = extractStep w r vp attempt score
          \<and> (attempt \<noteq> 0 \<longrightarrow> score = None)"
  by (auto simp: tryBody_def gatePasses_def split: quality_outcome.splits)

lemma tryBody_malformed:
  assumes "readImage w = None" "attempt = 0 \<longrightarrow> gatePasses w"
    and "generateContent w attempt = Malformed msg"
  shows "tryBody w r vp attempt =
     (if int attempt < maxRetries w - 1
      then Continue (newError (''JSON parse error: '' @ msg)) (baseDelay * 2 ^ attempt)
      else Caught (SyntaxError msg))"
proof -
  from tryBody_extract [OF assms(1,2)] obtain score
    where "tryBody w r vp attempt = extractStep w r vp attempt score" by blast
  then show ?thesis by (simp add: extractStep_def assms(3))
qed

lemma tryBody_throws:
  assumes "readImage w = None" "attempt = 0 \<longrightarrow> gatePasses w"
    and "generateContent w attempt = Throws e"
  shows "tryBody w r vp attempt = Caught e"
proof -
  from tryBody_extract [OF assms(1,2)] obtain score
    where "tryBody w r vp attempt = extractStep w r vp attempt score" by blast
  then show ?thesis by (simp add: extractStep_def assms(3))
qed

lemma tryBody_parsed_later:
  assumes "readImage w = None" "attempt \<noteq> 0"
    and "generateContent w attempt = Parsed ex" "validateExtraction (timeZone w) ex r vp = Inr v"
  shows "tryBody w r vp attempt = Return (Audited ex v None)"
  using assms by (simp add: tryBody_def extractStep_def)

lemma SyntaxError_not_retriable: "\<not> isRetriable (SyntaxError msg)"
  by (simp add: isRetriable_def SyntaxError_def)

lemma attemptLoop_continue_to:
  "int attempt < maxRetries w \<Longrightarrow> tryBody w r vp attempt = Continue e d \<Longrightarrow>
   n = attempt + 1 \<Longrightarrow> sl' = sl @ [d] \<Longrightarrow>
   attemptLoop w r vp attempt le sl = attemptLoop w r vp n (Some e) sl'"
  by (simp add: attemptLoop_continue)

text \<open>
  Claim C5. When the oracle's text fails to parse on an attempt that is not the last, the
  loop sleeps 1000 ms times 2 to the attempt number (counted from 0) and makes the next
  attempt; on the last attempt the parser's error is what the caller receives. With a
  bound of 4, an oracle that is malformed on the attempts 0 and 1 and valid on attempt 2
  gives the audit of that extraction after the sleeps of 1000 and 2000 ms, and no other.
\<close>

theorem parse_failure_retry:
  "(readImage w = None \<and> (attempt = 0 \<longrightarrow> gatePasses w)
      \<and> generateContent w attempt = Malformed msg \<and> int attempt < maxRetries w - 1 \<longrightarrow>
      attemptLoop w r vp attempt le sl =
        attemptLoop w r vp (attempt + 1) (Some (newError (''JSON parse error: '' @ msg)))
          (sl @ [1000 * 2 ^ attempt]))
   \<and> (readImage w = None \<and> (attempt = 0 \<longrightarrow> gatePasses w)
      \<and> generateContent w attempt = Malformed msg \<and> int attempt = maxRetries w - 1 \<longrightarrow>
      attemptLoop w r vp attempt le sl = (Inl (Some (SyntaxError msg)), sl))
   \<and> (maxRetries w = 4 \<and> readImage w = None \<and> gatePasses w
      \<and> generateContent w 0 = Malformed m0 \<and> generateContent w 1 = Malformed m1
      \<and> generateContent w 2 = Parsed ex \<and> validateExtraction (timeZone w) ex r vp = Inr v \<longrightarrow>
      auditWithGemini w True r vp = (Inr (Audited ex v None), [1000, 2000]))"
proof (intro conjI impI)
  assume a: "readImage w = None \<and> (attempt = 0 \<longrightarrow> gatePasses w)
      \<and> generateContent w attempt = Malformed msg \<and> int attempt < maxRetries w - 1"
  then have t: "tryBody w r vp attempt =
      Continue (newError (''JSON parse error: '' @ msg)) (baseDelay * 2 ^ attempt)"
    using tryBody_malformed [of w attempt msg r vp] by simp
  from a have "int attempt < maxRetries w" by simp
  from attemptLoop_continue [OF this t]
  show "attemptLoop w r vp attempt le sl =
        attemptLoop w r vp (attempt + 1) (Some (newError (''JSON parse error: '' @ msg)))
          (sl @ [1000 * 2 ^ attempt])"
    by (simp add: baseDelay_def)
next
  assume a: "readImage w = None \<and> (attempt = 0 \<longrightarrow> gatePasses w)
      \<and> generateContent w attempt = Malformed msg \<and> int attempt = maxRetries w - 1"
  then have t: "tryBody w r vp attempt = Caught (SyntaxError msg)"
    using tryBody_malformed [of w attempt msg r vp] by simp
  from a have "int attempt < maxRetries w" by simp
  from attemptLoop_caught_stop [OF this t] a
  show "attemptLoop w r vp attempt le sl = (Inl (Some (SyntaxError msg)), sl)"
    by simp
next
  assume a: "maxRetries w = 4 \<and> readImage w = None \<and> gatePasses w
      \<and> generateContent w 0 = Malformed m0 \<and> generateContent w 1 = Malformed m1
      \<and> generateContent w 2 = Parsed ex \<and> validateExtraction (timeZone w) ex r vp = Inr v"
  have t0: "tryBody w r vp 0 =
      Continue (newError (''JSON parse error: '' @ m0)) (baseDelay * 2 ^ 0)"
    using a tryBody_malformed [of w 0 m0 r vp] by simp
  have t1: "tryBody w r vp 1 =
      Continue (newError (''JSON parse error: '' @ m1)) (baseDelay * 2 ^ 1)"
    using a tryBody_malformed [of w 1 m1 r vp] by simp
  have t2: "tryBody w r vp 2 = Return (Audited ex v None)"
    using a tryBody_parsed_later [of w 2 ex r vp v] by simp
  have l0: "int 0 < maxRetries w" and l1: "int 1 < maxRetries w" and l2: "int 2 < maxRetries w"
    using a by simp_all
  have s0: "attemptLoop w r vp 0 None [] =
      attemptLoop w r vp 1 (Some (newError (''JSON parse error: '' @ m0))) [1000]"
    by (rule attemptLoop_continue_to [OF l0 t0]) (simp_all add: baseDelay_def)
  have s1: "attemptLoop w r vp 1 (Some (newError (''JSON parse error: '' @ m0))) [1000] =
      attemptLoop w r vp 2 (Some (newError (''JSON parse error: '' @ m1))) [1000, 2000]"
    by (rule attemptLoop_continue_to [OF l1 t1]) (simp_all add: baseDelay_def)
  have s2: "attemptLoop w r vp 2 (Some (newError (''JSON parse error: '' @ m1))) [1000, 2000] =
      (Inr (Audited ex v None), [1000, 2000])"
    by (rule attemptLoop_return [OF l2 t2])
  show "auditWithGemini w True r vp = (Inr (Audited ex v None), [1000, 2000])"
    unfolding auditWithGemini_def using s0 s1 s2 by (simp only: simp_thms if_False)
qed

lemma sample_validate:
  "validateExtraction utc sampleExtraction sampleExpected [] = Inr sampleValidation"
proof -
  have e: "sampleExtraction\<lparr>placa := \<lparr>valor = ''ttn893'', confianza = 9 / 10\<rparr>\<rparr> = sampleExtraction"
    by (simp add: sampleExtraction_def)
  have l: "lowConfidenceFields sampleExtraction = []"
    by (simp add: lowConfidenceFields_def lowConfidenceEntry_def CONFIDENCE_THRESHOLD_def
        sampleExtraction_def)
  have h: "\<not> hasEmptyExtraction sampleExtraction"
    by (simp add: hasEmptyExtraction_def sampleExtraction_def)
  show ?thesis
    using sample_compareFields [of "9 / 10"] h
    by (simp add: e validateExtraction_def l allMatch_def sampleValidation_def)
qed

lemma malformedTwice_facts:
  "maxRetries malformedTwice = 4" "readImage malformedTwice = None" "gatePasses malformedTwice"
  "timeZone malformedTwice = utc"
  "generateContent malformedTwice 0 = Malformed ''Unexpected end of JSON input''"
  "generateContent malformedTwice 1 = Malformed ''Unexpected end of JSON input''"
  "generateContent malformedTwice 2 = Parsed sampleExtraction"
  by (simp_all add: malformedTwice_def gatePasses_def readableGate_def)

text \<open>The oracle that is malformed twice and then returns the sample extraction, and the
  oracle that is malformed on the last attempt too.\<close>

theorem parse_failure_retry_witness:
  "auditWithGemini malformedTwice True sampleExpected [] =
     (Inr (Audited sampleExtraction sampleValidation None), [1000, 2000])
   \<and> attemptLoop malformedAlways sampleExpected [] 3 None [1000, 2000, 4000] =
     (Inl (Some (SyntaxError ''Unexpected end of JSON input'')), [1000, 2000, 4000])
   \<and> attemptLoop malformedAlways sampleExpected [] 2 None [1000, 2000] =
     attemptLoop malformedAlways sampleExpected [] 3
       (Some (newError ''JSON parse error: Unexpected end of JSON input'')) [1000, 2000, 4000]"
proof -
  have m: "maxRetries malformedAlways = 4" "readImage malformedAlways = None"
    "generateContent malformedAlways 3 = Malformed ''Unexpected end of JSON input''"
    "generateContent malformedAlways 2 = Malformed ''Unexpected end of JSON input''"
    by (simp_all add: malformedAlways_def)
  have 1: "auditWithGemini malformedTwice True sampleExpected [] =
     (Inr (Audited sampleExtraction sampleValidation None), [1000, 2000])"
    using parse_failure_retry [of malformedTwice 0 "[]" sampleExpected "[]" None "[]"
        "''Unexpected end of JSON input''" "''Unexpected end of JSON input''"
        sampleExtraction sampleValidation]
      malformedTwice_facts sample_validate
    by simp
  have 2: "attemptLoop malformedAlways sampleExpected [] 3 None [1000, 2000, 4000] =
     (Inl (Some (SyntaxError ''Unexpected end of JSON input'')), [1000, 2000, 4000])"
    using parse_failure_retry [of malformedAlways 3 "''Unexpected end of JSON input''"
        sampleExpected "[]" None "[1000, 2000, 4000]"] m
    by simp
  have 3: "attemptLoop malformedAlways sampleExpected [] 2 None [1000, 2000] =
     attemptLoop malformedAlways sampleExpected [] 3
       (Some (newError ''JSON parse error: Unexpected end of JSON input'')) [1000, 2000, 4000]"
    using parse_failure_retry [of malformedAlways 2 "''Unexpected end of JSON input''"
        sampleExpected "[]" None "[1000, 2000]"] m
    by simp
  from 1 2 3 show ?thesis by simp
qed



lemma failingWith_facts:
  "maxRetries (failingWith e) = 4" "readImage (failingWith e) = None"
  "gatePasses (failingWith e)" "generateContent (failingWith e) k = Throws e"
  by (simp_all add: failingWith_def gatePasses_def readableGate_def)


section \<open>Properties of the ledger and the orchestrator\<close>

lemma map_of_put: "map_of (put k v files) k' = (if k' = k then Some v else map_of files k')"
  by (induction files) auto

lemma names_put:
  "map fst (put k v files) =
     (if k \<in> fst ` set files then map fst files else map fst files @ [k])"
  by (induction files) (force+)

lemma readJSON_writeJSON:
  "readJSON (writeJSON b p v) p' = (if p' = p \<and> b \<noteq> None then Some v else readJSON b p')"
  by (cases b) (simp_all add: readJSON_def writeJSON_def map_of_put)

lemma fileExists_readJSON: "fileExists b p = (readJSON b p \<noteq> None)"
  by (cases b) (simp_all add: fileExists_def readJSON_def)

lemma listFiles_writeJSON:
  "\<not> prefix pre p \<Longrightarrow> listFiles (writeJSON b p v) pre = listFiles b pre"
  by (cases b) (simp_all add: listFiles_def writeJSON_def names_put)

lemma path_facts:
  "indexPath d \<noteq> failedPath d rid" "indexPath d \<noteq> processedPath d rid"
  "indexPath d \<noteq> manualReviewPath d rid"
  "\<not> prefix (processedPrefix d) (failedPath d rid)"
  "\<not> prefix (processedPrefix d) (manualReviewPath d rid)"
  "\<not> prefix (processedPrefix d) (indexPath d)"
  "prefix (processedPrefix d) (processedPath d rid)"
  by (simp_all add: indexPath_def failedPath_def processedPath_def manualReviewPath_def
      processedPrefix_def)

lemma getProcessedRowIds_None: "getProcessedRowIds None d = ([], None)"
  by (simp add: getProcessedRowIds_def fileExists_def listFiles_def)

lemma getProcessedRowIds_index:
  "readJSON b (indexPath d) = Some (IndexDoc ids) \<Longrightarrow> getProcessedRowIds b d = (ids, b)"
  by (simp add: getProcessedRowIds_def fileExists_readJSON)

lemma getProcessedRowIds_rebuild:
  assumes "\<not> (\<exists>ids. readJSON b (indexPath d) = Some (IndexDoc ids))"
  shows "getProcessedRowIds b d =
     (map (\<lambda>n. basename_js n ''.json'') (listFiles b (processedPrefix d)),
      if listFiles b (processedPrefix d) \<noteq> []
      then writeJSON b (indexPath d)
             (IndexDoc (map (\<lambda>n. basename_js n ''.json'') (listFiles b (processedPrefix d))))
      else b)"
proof (cases "readJSON b (indexPath d)")
  case None
  then show ?thesis
    by (simp add: getProcessedRowIds_def fileExists_readJSON Let_def updateProcessedIndex_def)
next
  case (Some x)
  with assms have "\<And>ids. x \<noteq> IndexDoc ids" by auto
  then show ?thesis
    using Some
    by (cases x)
       (auto simp add: getProcessedRowIds_def fileExists_readJSON Let_def updateProcessedIndex_def)
qed

lemma getProcessedRowIds_stable:
  "fst (getProcessedRowIds (snd (getProcessedRowIds b d)) d) = fst (getProcessedRowIds b d)"
proof (cases "\<exists>ids. readJSON b (indexPath d) = Some (IndexDoc ids)")
  case True
  then obtain ids where "readJSON b (indexPath d) = Some (IndexDoc ids)" by blast
  then show ?thesis by (simp add: getProcessedRowIds_index)
next
  case False
  note r = getProcessedRowIds_rebuild [OF False]
  show ?thesis
  proof (cases "listFiles b (processedPrefix d) = []")
    case True
    then show ?thesis by (simp add: r)
  next
    case False
    then have "b \<noteq> None" by (cases b) (auto simp: listFiles_def)
    then have "readJSON (snd (getProcessedRowIds b d)) (indexPath d) =
        Some (IndexDoc (map (\<lambda>n. basename_js n ''.json'') (listFiles b (processedPrefix d))))"
      using False by (simp add: r readJSON_writeJSON)
    from getProcessedRowIds_index [OF this] show ?thesis by (simp add: r)
  qed
qed

lemma getUnprocessedRecords_filter:
  "getUnprocessedRecords records d b =
     (filter (\<lambda>r. rowId r \<notin> set (fst (getProcessedRowIds b d))) records,
      snd (getProcessedRowIds b d))"
  by (cases b)
     (simp_all add: getUnprocessedRecords_def getProcessedRowIds_None split: prod.split)

text \<open>
  Claim C8. For every list of records and every date-partition, with the processed ids
  being what \<open>getProcessedRowIds\<close> returns on the same bucket: the unprocessed records are
  exactly the records whose id is not among the processed ids, in their order; every
  record passed in is returned or has its id among them; no returned record has. Reading
  the processed ids again after the call gives the same ids.
\<close>

theorem unprocessed_partition:
  "fst (getUnprocessedRecords records d b) =
     filter (\<lambda>r. rowId r \<notin> set (fst (getProcessedRowIds b d))) records
   \<and> (\<forall>r \<in> set records. r \<in> set (fst (getUnprocessedRecords records d b))
         \<or> rowId r \<in> set (fst (getProcessedRowIds b d)))
   \<and> (\<forall>r \<in> set (fst (getUnprocessedRecords records d b)).
         r \<in> set records \<and> rowId r \<notin> set (fst (getProcessedRowIds b d)))
   \<and> rowId ` set records
       \<subseteq> rowId ` set (fst (getUnprocessedRecords records d b))
         \<union> set (fst (getProcessedRowIds b d))
   \<and> rowId ` set (fst (getUnprocessedRecords records d b))
       \<inter> set (fst (getProcessedRowIds b d)) = {}
   \<and> fst (getProcessedRowIds (snd (getUnprocessedRecords records d b)) d) =
       fst (getProcessedRowIds b d)"
  by (auto simp add: getUnprocessedRecords_filter getProcessedRowIds_stable)

lemma sample_rowId: "rowId (sampleRecord rid) = rid"
  by (simp add: sampleRecord_def)

text \<open>A ledger that holds the row A, and the rows A and B passed in: B is returned.\<close>

theorem unprocessed_partition_witness:
  "fst (getUnprocessedRecords [sampleRecord ''A'', sampleRecord ''B''] ''2025/12/10''
         (Some [(''audits/2025/12/10/index.json'', IndexDoc [''A''])])) = [sampleRecord ''B'']
   \<and> fst (getProcessedRowIds (Some [(''audits/2025/12/10/index.json'', IndexDoc [''A''])])
         ''2025/12/10'') = [''A'']"
proof -
  let ?b = "Some [(''audits/2025/12/10/index.json'', IndexDoc [''A''])]"
  have i: "readJSON ?b (indexPath ''2025/12/10'') = Some (IndexDoc [''A''])"
    by (simp add: readJSON_def indexPath_def)
  have p: "fst (getProcessedRowIds ?b ''2025/12/10'') = [''A'']"
    by (simp add: getProcessedRowIds_index [OF i])
  from unprocessed_partition [of "[sampleRecord ''A'', sampleRecord ''B'']" "''2025/12/10''" ?b]
  have "fst (getUnprocessedRecords [sampleRecord ''A'', sampleRecord ''B''] ''2025/12/10'' ?b) =
     filter (\<lambda>r. rowId r \<notin> set (fst (getProcessedRowIds ?b ''2025/12/10'')))
       [sampleRecord ''A'', sampleRecord ''B'']"
    by blast
  then show ?thesis by (simp add: p sample_rowId)
qed
lemma listFiles_exists:
  "n \<in> set (listFiles b pre) \<Longrightarrow> fileExists b n \<and> prefix pre n"
  by (cases b) (auto simp: listFiles_def fileExists_def map_of_eq_None_iff)

lemma ledger_absent: "\<not> fileExists b (indexPath d) \<Longrightarrow> ledger b d = []"
  by (simp add: ledger_def fileExists_readJSON)

text \<open>
  Claim C9. When the index document of a date-partition is absent, \<open>getProcessedRowIds\<close>
  returns the base names of the objects under the \<open>processed/\<close> prefix and nothing else,
  and writes those as the new index. An id whose only object is the one under
  \<open>manual_review/\<close> is therefore neither among the ids returned nor in the index
  written, and a record with that id is returned as unprocessed, to be audited again.
\<close>

theorem rebuild_skips_manual_review:
  assumes "\<not> fileExists b (indexPath d)"
    and "\<forall>n. fileExists b n \<and> basename_js n ''.json'' = rid \<longrightarrow> n = manualReviewPath d rid"
  shows "fst (getProcessedRowIds b d) =
           map (\<lambda>n. basename_js n ''.json'') (listFiles b (processedPrefix d))
     \<and> rid \<notin> set (fst (getProcessedRowIds b d))
     \<and> rid \<notin> set (ledger (snd (getProcessedRowIds b d)) d)
     \<and> (\<forall>r \<in> set records. rowId r = rid \<longrightarrow>
           r \<in> set (fst (getUnprocessedRecords records d b)))"
proof -
  let ?ids = "map (\<lambda>n. basename_js n ''.json'') (listFiles b (processedPrefix d))"
  have no: "\<not> (\<exists>ids. readJSON b (indexPath d) = Some (IndexDoc ids))"
    using assms(1) by (simp add: fileExists_readJSON)
  note r = getProcessedRowIds_rebuild [OF no]
  have 1: "fst (getProcessedRowIds b d) = ?ids" by (simp add: r)
  have 2: "rid \<notin> set ?ids"
  proof
    assume "rid \<in> set ?ids"
    then obtain n where n: "n \<in> set (listFiles b (processedPrefix d))"
      and e: "basename_js n ''.json'' = rid" by auto
    from listFiles_exists [OF n] have f: "fileExists b n" and p: "prefix (processedPrefix d) n"
      by simp_all
    from assms(2) f e have "n = manualReviewPath d rid" by blast
    with p path_facts(5) [of d rid] show False by simp
  qed
  have 3: "rid \<notin> set (ledger (snd (getProcessedRowIds b d)) d)"
  proof (cases "listFiles b (processedPrefix d) = []")
    case True
    then show ?thesis using ledger_absent [OF assms(1)] by (simp add: r)
  next
    case False
    then have "b \<noteq> None" by (cases b) (auto simp: listFiles_def)
    then have "ledger (snd (getProcessedRowIds b d)) d = ?ids"
      using False by (simp add: r ledger_def readJSON_writeJSON)
    with 2 show ?thesis by simp
  qed
  have 4: "\<forall>r \<in> set records. rowId r = rid \<longrightarrow>
           r \<in> set (fst (getUnprocessedRecords records d b))"
    using 1 2 by (simp add: getUnprocessedRecords_filter)
  from 2 have m2: "rid \<notin> set (fst (getProcessedRowIds b d))" by (simp add: 1)
  from 1 m2 3 4 show ?thesis by (intro conjI)
qed

lemma basename_samples:
  "basename_js ''audits/2025/12/10/processed/P.json'' ''.json'' = ''P''"
  "basename_js ''audits/2025/12/10/manual_review/M.json'' ''.json'' = ''M''"
  by (simp_all add: basename_js_def lastComponent_def isSlash_def suffix_def)

text \<open>A bucket without index that holds the result of P under \<open>processed/\<close> and the
  result of M under \<open>manual_review/\<close>: the ids rebuilt are P alone, and the record M
  is unprocessed.\<close>

theorem rebuild_skips_manual_review_witness:
  "fst (getProcessedRowIds
         (Some [(''audits/2025/12/10/processed/P.json'', OtherDoc),
                (''audits/2025/12/10/manual_review/M.json'', OtherDoc)]) ''2025/12/10'')
     = [''P'']
   \<and> ledger (snd (getProcessedRowIds
         (Some [(''audits/2025/12/10/processed/P.json'', OtherDoc),
                (''audits/2025/12/10/manual_review/M.json'', OtherDoc)]) ''2025/12/10''))
        ''2025/12/10'' = [''P'']
   \<and> fst (getUnprocessedRecords [sampleRecord ''P'', sampleRecord ''M''] ''2025/12/10''
         (Some [(''audits/2025/12/10/processed/P.json'', OtherDoc),
                (''audits/2025/12/10/manual_review/M.json'', OtherDoc)]))
     = [sampleRecord ''M'']"
proof -
  let ?b = "Some [(''audits/2025/12/10/processed/P.json'', OtherDoc),
                (''audits/2025/12/10/manual_review/M.json'', OtherDoc)]"
  have a: "\<not> fileExists ?b (indexPath ''2025/12/10'')"
    by (simp add: fileExists_def indexPath_def)
  have o: "\<forall>n. fileExists ?b n \<and> basename_js n ''.json'' = ''M'' \<longrightarrow>
             n = manualReviewPath ''2025/12/10'' ''M''"
    by (auto simp add: fileExists_def manualReviewPath_def basename_samples split: if_splits)
  have l: "listFiles ?b (processedPrefix ''2025/12/10'') = [''audits/2025/12/10/processed/P.json'']"
    by (simp add: listFiles_def processedPrefix_def)
  note t = rebuild_skips_manual_review [OF a o, of "[sampleRecord ''P'', sampleRecord ''M'']"]
  have 1: "fst (getProcessedRowIds ?b ''2025/12/10'') = [''P'']"
    using t by (simp add: l basename_samples)
  have n: "\<not> (\<exists>ids. readJSON ?b (indexPath ''2025/12/10'') = Some (IndexDoc ids))"
    by (simp add: readJSON_def indexPath_def)
  have 2: "ledger (snd (getProcessedRowIds ?b ''2025/12/10'')) ''2025/12/10'' = [''P'']"
    by (simp add: getProcessedRowIds_rebuild [OF n] l basename_samples ledger_def
        readJSON_writeJSON)
  have 3: "fst (getUnprocessedRecords [sampleRecord ''P'', sampleRecord ''M''] ''2025/12/10'' ?b)
     = [sampleRecord ''M'']"
    by (simp add: getUnprocessedRecords_filter 1 sample_rowId)
  from 1 2 3 show ?thesis by simp
qed
lemma tryBody_Continue:
  "tryBody w r vp attempt = Continue e d \<Longrightarrow> int attempt < maxRetries w - 1"
  by (auto simp: tryBody_def extractStep_def
      split: option.splits quality_outcome.splits oracle_outcome.splits sum.splits if_splits)

lemma tryBody_Audited:
  "tryBody w r vp attempt = Return (Audited ex v q) \<Longrightarrow> validateExtraction (timeZone w) ex r vp = Inr v"
  by (auto simp: tryBody_def extractStep_def
      split: option.splits quality_outcome.splits oracle_outcome.splits sum.splits if_splits)

lemma attemptLoop_throws_error:
  "int attempt < maxRetries w \<Longrightarrow> fst (attemptLoop w r vp attempt le sl) \<noteq> Inl None"
proof (induction w r vp attempt le sl rule: attemptLoop.induct)
  case (1 w rcd validPlacas attempt lastError sleeps)
  show ?case
  proof (cases "tryBody w rcd validPlacas attempt")
    case (Return g)
    then show ?thesis using "1.prems" by (simp add: attemptLoop_return)
  next
    case (Continue e d)
    have "int (attempt + 1) < maxRetries w"
      using tryBody_Continue [OF Continue] by simp
    then show ?thesis
      using "1.IH"(1) [OF _ Continue] "1.prems" by (simp add: attemptLoop_continue [OF _ Continue])
  next
    case (Caught e)
    show ?thesis
    proof (cases "\<not> isRetriable e \<or> int attempt = maxRetries w - 1")
      case True
      then show ?thesis using "1.prems" Caught by (simp add: attemptLoop_caught_stop)
    next
      case False
      then have l: "int attempt < maxRetries w - 1" using "1.prems" by simp
      then have "int (attempt + 1) < maxRetries w" by simp
      then show ?thesis
        using "1.IH"(2) [OF _ Caught] "1.prems" False
        by (simp add: attemptLoop_caught_retry [OF Caught _ l])
    qed
  qed
qed

lemma attemptLoop_Audited:
  "fst (attemptLoop w r vp attempt le sl) = Inr (Audited ex v q) \<Longrightarrow>
   validateExtraction (timeZone w) ex r vp = Inr v"
proof (induction w r vp attempt le sl rule: attemptLoop.induct)
  case (1 w rcd validPlacas attempt lastError sleeps)
  show ?case
  proof (cases "int attempt < maxRetries w")
    case False
    then show ?thesis using "1.prems" by (simp add: attemptLoop_exhausted)
  next
    case True
    show ?thesis
    proof (cases "tryBody w rcd validPlacas attempt")
      case (Return g)
      then show ?thesis
        using "1.prems" True tryBody_Audited [of w rcd validPlacas attempt ex v q]
        by (simp add: attemptLoop_return)
    next
      case (Continue e d)
      then show ?thesis
        using "1.IH"(1) [OF _ Continue] "1.prems" True
        by (simp add: attemptLoop_continue [OF True Continue])
    next
      case (Caught e)
      show ?thesis
      proof (cases "\<not> isRetriable e \<or> int attempt = maxRetries w - 1")
        case True
        then show ?thesis
          using "1.prems" Caught \<open>int attempt < maxRetries w\<close>
          by (simp add: attemptLoop_caught_stop)
      next
        case False
        then have l: "int attempt < maxRetries w - 1" using \<open>int attempt < maxRetries w\<close> by simp
        show ?thesis
          using "1.IH"(2) [OF _ Caught] "1.prems" False \<open>int attempt < maxRetries w\<close>
          by (simp add: attemptLoop_caught_retry [OF Caught _ l])
      qed
    qed
  qed
qed

lemma auditWithGemini_throws_error:
  "0 < maxRetries w \<Longrightarrow> fst (auditWithGemini w avail r vp) \<noteq> Inl None"
  using attemptLoop_throws_error [of 0 w r vp None "[]"]
  by (simp add: auditWithGemini_def)

lemma auditWithGemini_Inr:
  "fst (auditWithGemini w avail r vp) = Inr g \<Longrightarrow> avail"
  by (cases avail) (simp_all add: auditWithGemini_def)

lemma auditWithGemini_Audited:
  "fst (auditWithGemini w avail r vp) = Inr (Audited ex v q) \<Longrightarrow>
   validateExtraction (timeZone w) ex r vp = Inr v"
  using attemptLoop_Audited [of w r vp 0 None "[]" ex v q]
  by (cases avail) (simp_all add: auditWithGemini_def)

lemma validateExtraction_status:
  "validateExtraction tz ex r vp = Inr v \<Longrightarrow> status v \<in> knownStatuses"
  by (auto simp: validateExtraction_def knownStatuses_def Let_def split: sum.splits if_splits)
lemma addToProcessedIndex_ledger:
  "addToProcessedIndex b d rid =
     (if rid \<notin> set (ledger b d)
      then writeJSON b (indexPath d) (IndexDoc (ledger b d @ [rid])) else b)"
proof -
  have "(if fileExists b (indexPath d)
         then (case readJSON b (indexPath d) of Some (IndexDoc ids) \<Rightarrow> ids | _ \<Rightarrow> [])
         else []) = ledger b d"
    by (auto simp: ledger_def fileExists_readJSON)
  then show ?thesis
    by (simp add: addToProcessedIndex_def updateProcessedIndex_def Let_def)
qed

lemma ledger_add:
  "b \<noteq> None \<Longrightarrow> set (ledger (addToProcessedIndex b d rid) d) = insert rid (set (ledger b d))"
  by (auto simp: addToProcessedIndex_ledger ledger_def readJSON_writeJSON)

lemma readJSON_add:
  "p \<noteq> indexPath d \<Longrightarrow> readJSON (addToProcessedIndex b d rid) p = readJSON b p"
  by (simp add: addToProcessedIndex_ledger readJSON_writeJSON)

lemma ledger_writeJSON:
  "indexPath d \<noteq> p \<Longrightarrow> ledger (writeJSON b p v) d = ledger b d"
  by (simp add: ledger_def readJSON_writeJSON)

lemma writeJSON_None: "(writeJSON b p v = None) = (b = None)"
  by (simp add: writeJSON_def)

lemma getProcessedRowIds_fst:
  "fst (getProcessedRowIds b d) =
     (case readJSON b (indexPath d) of
        Some (IndexDoc ids) \<Rightarrow> ids
      | _ \<Rightarrow> map (\<lambda>n. basename_js n ''.json'') (listFiles b (processedPrefix d)))"
proof (cases "\<exists>ids. readJSON b (indexPath d) = Some (IndexDoc ids)")
  case True
  then obtain ids where i: "readJSON b (indexPath d) = Some (IndexDoc ids)" by blast
  show ?thesis by (simp add: getProcessedRowIds_index [OF i] i)
next
  case False
  then have "(case readJSON b (indexPath d) of
        Some (IndexDoc ids) \<Rightarrow> ids
      | _ \<Rightarrow> map (\<lambda>n. basename_js n ''.json'') (listFiles b (processedPrefix d)))
     = map (\<lambda>n. basename_js n ''.json'') (listFiles b (processedPrefix d))"
    by (auto split: option.splits blob.splits)
  then show ?thesis by (simp add: getProcessedRowIds_rebuild [OF False])
qed

lemma getProcessedRowIds_failed:
  "fst (getProcessedRowIds (writeJSON b (failedPath d rid) v) d) = fst (getProcessedRowIds b d)"
proof -
  have l: "listFiles (writeJSON b (failedPath d rid) v) (processedPrefix d)
           = listFiles b (processedPrefix d)"
    by (rule listFiles_writeJSON [OF path_facts(4)])
  have r: "readJSON (writeJSON b (failedPath d rid) v) (indexPath d) = readJSON b (indexPath d)"
    using path_facts(1) [of d rid] by (simp add: readJSON_writeJSON)
  show ?thesis unfolding getProcessedRowIds_fst l r by (rule refl)
qed

lemma auditResult_status:
  "status v \<in> knownStatuses \<Longrightarrow> doc_status (auditResult now r imagePath ex v) = status v"
  by (auto simp: auditResult_def knownStatuses_def)

lemma auditEach_total:
  "\<forall>r \<in> set rs. 0 < maxRetries (ws r) \<Longrightarrow>
   \<exists>docs. fst (auditEach ws now d vp rs b acc) = Inr (acc @ docs) \<and> map row_id docs = map rowId rs"
proof (induction rs arbitrary: b acc)
  case Nil
  show ?case by simp
next
  case (Cons r rs)
  let ?a = "auditRecord (ws r) now r (imagePathOf d r) d vp b"
  from Cons.prems have m: "0 < maxRetries (ws r)" by simp
  have "\<exists>doc. fst ?a = Inr doc \<and> row_id doc = rowId r"
    using auditWithGemini_throws_error [OF m, of "b \<noteq> None" r vp]
    by (auto simp: auditRecord_def manualReviewResult_def auditResult_def errorResult_def
        split: sum.splits option.splits gemini_result.splits)
  then obtain doc where doc: "fst ?a = Inr doc" "row_id doc = rowId r" by blast
  obtain b' where a: "?a = (Inr doc, b')" using doc(1) by (cases ?a) simp
  from Cons.prems have "\<forall>r \<in> set rs. 0 < maxRetries (ws r)" by simp
  from Cons.IH [OF this, of b' "acc @ [doc]"] obtain docs
    where "fst (auditEach ws now d vp rs b' (acc @ [doc])) = Inr ((acc @ [doc]) @ docs)"
      and "map row_id docs = map rowId rs" by blast
  then have "fst (auditEach ws now d vp (r # rs) b acc) = Inr (acc @ (doc # docs))
             \<and> map row_id (doc # docs) = map rowId (r # rs)"
    using a doc(2) by simp
  then show ?case by blast
qed
lemma auditAllRecords_total:
  assumes "\<forall>x \<in> set rs. 0 < maxRetries (ws x)"
  shows "\<exists>docs. fst (auditAllRecords ws now rs d b) = Inr docs
                \<and> map row_id docs = map rowId (fst (getUnprocessedRecords rs d b))"
proof -
  obtain un b1 where u: "getUnprocessedRecords rs d b = (un, b1)"
    by (cases "getUnprocessedRecords rs d b")
  have "set un \<subseteq> set rs"
    using u by (auto simp: getUnprocessedRecords_filter)
  with assms have m: "\<forall>x \<in> set un. 0 < maxRetries (ws x)" by blast
  from auditEach_total [OF m, of now d "getValidPlacas b1 d" b1 "[]"] obtain docs
    where e: "fst (auditEach ws now d (getValidPlacas b1 d) un b1 []) = Inr docs"
      and i: "map row_id docs = map rowId un" by auto
  obtain b2 where "auditEach ws now d (getValidPlacas b1 d) un b1 [] = (Inr docs, b2)"
    using e by (cases "auditEach ws now d (getValidPlacas b1 d) un b1 []") simp
  then have "fst (auditAllRecords ws now rs d b) = Inr (if un = [] then [] else docs)"
    by (simp add: auditAllRecords_def u Let_def)
  with i show ?thesis by (auto simp: u)
qed

lemma result_paths_distinct:
  "processedPath d rid \<noteq> failedPath d rid" "manualReviewPath d rid \<noteq> failedPath d rid"
  "failedPath d rid \<noteq> processedPath d rid" "failedPath d rid \<noteq> manualReviewPath d rid"
  "failedPath d rid \<noteq> indexPath d" "processedPath d rid \<noteq> indexPath d"
  "manualReviewPath d rid \<noteq> indexPath d"
  by (simp_all add: indexPath_def failedPath_def processedPath_def manualReviewPath_def)

lemma auditRecord_error:
  assumes "fst (auditWithGemini w (b \<noteq> None) r vp) = Inl (Some e)"
  shows "auditRecord w now r imagePath d vp b =
     (Inr (errorResult now r imagePath e),
      writeJSON b (failedPath d (rowId r)) (ResultDoc (errorResult now r imagePath e)))"
  using assms by (simp add: auditRecord_def)

lemma auditRecord_manual:
  assumes "fst (auditWithGemini w (b \<noteq> None) r vp) = Inr (RequiresManualReview s y)"
  shows "auditRecord w now r imagePath d vp b =
     (Inr (manualReviewResult now r imagePath s y),
      addToProcessedIndex
        (writeJSON b (manualReviewPath d (rowId r)) (ResultDoc (manualReviewResult now r imagePath s y)))
        d (rowId r))"
  using assms by (simp add: auditRecord_def)

lemma auditRecord_audited:
  assumes "fst (auditWithGemini w (b \<noteq> None) r vp) = Inr (Audited ex v q)"
  shows "auditRecord w now r imagePath d vp b =
     (Inr (auditResult now r imagePath ex v),
      addToProcessedIndex
        (writeJSON b (processedPath d (rowId r)) (ResultDoc (auditResult now r imagePath ex v)))
        d (rowId r))"
  using assms by (simp add: auditRecord_def)

text \<open>
  The working of the ledger where the loop of \<open>auditWithGemini\<close> runs at least once (a
  retry bound of at least 1) and the calls to the store succeed. A result document is then
  always returned, never an error thrown. When \<open>auditWithGemini\<close> returns, the document
  is stored under \<open>processed/\<close>, or under \<open>manual_review/\<close> for an unreadable image, the
  record's id is in the ledger afterwards and is the only id added, and nothing is written
  under \<open>failed/\<close>. When \<open>auditWithGemini\<close> throws, the document has the status \<open>error\<close>
  and the error's message, it is written under \<open>failed/\<close> (when there is a bucket), the
  ledger and the documents under \<open>processed/\<close> and \<open>manual_review/\<close> stay as they were,
  the processed ids read from the bucket are the same as before, and so a record that was
  unprocessed before is unprocessed again. A batch whose records all have such a bound
  returns one document for each unprocessed record, in order, whatever the oracle throws.
\<close>

lemma auditRecord_ledger:
  "(0 < maxRetries w \<longrightarrow>
     (\<exists>doc. fst (auditRecord w now r imagePath d vp b) = Inr doc \<and>
        (case fst (auditWithGemini w (b \<noteq> None) r vp) of
           Inl thrown \<Rightarrow>
             doc_status doc = ''error'' \<and> thrown \<noteq> None
             \<and> doc_error doc = map_option message thrown
             \<and> snd (auditRecord w now r imagePath d vp b) =
                 writeJSON b (failedPath d (rowId r)) (ResultDoc doc)
             \<and> (b \<noteq> None \<longrightarrow>
                  readJSON (snd (auditRecord w now r imagePath d vp b)) (failedPath d (rowId r))
                  = Some (ResultDoc doc))
             \<and> ledger (snd (auditRecord w now r imagePath d vp b)) d = ledger b d
             \<and> readJSON (snd (auditRecord w now r imagePath d vp b)) (processedPath d (rowId r))
                 = readJSON b (processedPath d (rowId r))
             \<and> readJSON (snd (auditRecord w now r imagePath d vp b)) (manualReviewPath d (rowId r))
                 = readJSON b (manualReviewPath d (rowId r))
             \<and> fst (getProcessedRowIds (snd (auditRecord w now r imagePath d vp b)) d)
                 = fst (getProcessedRowIds b d)
             \<and> (r \<in> set records \<and> rowId r \<notin> set (fst (getProcessedRowIds b d)) \<longrightarrow>
                  r \<in> set (fst (getUnprocessedRecords records d
                                  (snd (auditRecord w now r imagePath d vp b)))))
         | Inr g \<Rightarrow>
             b \<noteq> None \<and> doc_status doc \<in> knownStatuses
             \<and> readJSON (snd (auditRecord w now r imagePath d vp b))
                  (case g of
                     RequiresManualReview s y \<Rightarrow> manualReviewPath d (rowId r)
                   | Audited ex v q \<Rightarrow> processedPath d (rowId r))
                 = Some (ResultDoc doc)
             \<and> set (ledger (snd (auditRecord w now r imagePath d vp b)) d)
                 = insert (rowId r) (set (ledger b d))
             \<and> readJSON (snd (auditRecord w now r imagePath d vp b)) (failedPath d (rowId r))
                 = readJSON b (failedPath d (rowId r)))))
   \<and> ((\<forall>x \<in> set rs. 0 < maxRetries (ws x)) \<longrightarrow>
        (\<exists>docs. fst (auditAllRecords ws now rs d b) = Inr docs
                \<and> map row_id docs = map rowId (fst (getUnprocessedRecords rs d b))))"
proof (intro conjI impI)
  assume m: "0 < maxRetries w"
  let ?g = "fst (auditWithGemini w (b \<noteq> None) r vp)"
  let ?a = "auditRecord w now r imagePath d vp b"
  show "\<exists>doc. fst ?a = Inr doc \<and>
        (case ?g of
           Inl thrown \<Rightarrow>
             doc_status doc = ''error'' \<and> thrown \<noteq> None
             \<and> doc_error doc = map_option message thrown
             \<and> snd ?a = writeJSON b (failedPath d (rowId r)) (ResultDoc doc)
             \<and> (b \<noteq> None \<longrightarrow>
                  readJSON (snd ?a) (failedPath d (rowId r)) = Some (ResultDoc doc))
             \<and> ledger (snd ?a) d = ledger b d
             \<and> readJSON (snd ?a) (processedPath d (rowId r))
                 = readJSON b (processedPath d (rowId r))
             \<and> readJSON (snd ?a) (manualReviewPath d (rowId r))
                 = readJSON b (manualReviewPath d (rowId r))
             \<and> fst (getProcessedRowIds (snd ?a) d) = fst (getProcessedRowIds b d)
             \<and> (r \<in> set records \<and> rowId r \<notin> set (fst (getProcessedRowIds b d)) \<longrightarrow>
                  r \<in> set (fst (getUnprocessedRecords records d (snd ?a))))
         | Inr g \<Rightarrow>
             b \<noteq> None \<and> doc_status doc \<in> knownStatuses
             \<and> readJSON (snd ?a)
                  (case g of
                     RequiresManualReview s y \<Rightarrow> manualReviewPath d (rowId r)
                   | Audited ex v q \<Rightarrow> processedPath d (rowId r))
                 = Some (ResultDoc doc)
             \<and> set (ledger (snd ?a) d) = insert (rowId r) (set (ledger b d))
             \<and> readJSON (snd ?a) (failedPath d (rowId r))
                 = readJSON b (failedPath d (rowId r)))"
  proof (cases ?g)
    case (Inl thrown)
    with auditWithGemini_throws_error [OF m, of "b \<noteq> None" r vp]
    obtain e where e: "thrown = Some e" by (cases thrown) auto
    let ?doc = "errorResult now r imagePath e"
    have a: "?a = (Inr ?doc, writeJSON b (failedPath d (rowId r)) (ResultDoc ?doc))"
      using Inl e by (intro auditRecord_error) simp
    have 1: "doc_status ?doc = ''error''" "doc_error ?doc = Some (message e)"
      by (simp_all add: errorResult_def)
    have 2: "b \<noteq> None \<longrightarrow> readJSON (snd ?a) (failedPath d (rowId r)) = Some (ResultDoc ?doc)"
      by (simp add: a readJSON_writeJSON)
    have 3: "ledger (snd ?a) d = ledger b d"
      by (simp add: a ledger_writeJSON path_facts(1))
    have 4: "readJSON (snd ?a) (processedPath d (rowId r)) = readJSON b (processedPath d (rowId r))"
      "readJSON (snd ?a) (manualReviewPath d (rowId r)) = readJSON b (manualReviewPath d (rowId r))"
      by (simp_all add: a readJSON_writeJSON result_paths_distinct)
    have 5: "fst (getProcessedRowIds (snd ?a) d) = fst (getProcessedRowIds b d)"
      by (simp add: a getProcessedRowIds_failed)
    have 6: "r \<in> set records \<and> rowId r \<notin> set (fst (getProcessedRowIds b d)) \<longrightarrow>
                  r \<in> set (fst (getUnprocessedRecords records d (snd ?a)))"
      by (simp add: getUnprocessedRecords_filter 5)
    show ?thesis
      unfolding Inl e using 1 2 3 4 5 6 by (intro exI [of _ ?doc]) (simp add: a)
  next
    case (Inr g)
    from auditWithGemini_Inr [OF Inr] have bn: "b \<noteq> None" .
    show ?thesis
    proof (cases g)
      case (RequiresManualReview s y)
      let ?doc = "manualReviewResult now r imagePath s y"
      let ?b1 = "writeJSON b (manualReviewPath d (rowId r)) (ResultDoc ?doc)"
      have a: "?a = (Inr ?doc, addToProcessedIndex ?b1 d (rowId r))"
        using Inr RequiresManualReview by (intro auditRecord_manual) simp
      have b1: "?b1 \<noteq> None" using bn by (simp add: writeJSON_None)
      have 1: "doc_status ?doc \<in> knownStatuses"
        by (simp add: manualReviewResult_def knownStatuses_def)
      have 2: "readJSON (snd ?a) (manualReviewPath d (rowId r)) = Some (ResultDoc ?doc)"
        using bn by (simp add: a readJSON_add result_paths_distinct readJSON_writeJSON)
      have 3: "set (ledger (snd ?a) d) = insert (rowId r) (set (ledger b d))"
        using ledger_add [OF b1, of d "rowId r"]
        by (simp add: a ledger_writeJSON path_facts(3))
      have 4: "readJSON (snd ?a) (failedPath d (rowId r)) = readJSON b (failedPath d (rowId r))"
        by (simp add: a readJSON_add result_paths_distinct readJSON_writeJSON)
      show ?thesis
        unfolding Inr RequiresManualReview using bn 1 2 3 4
        by (intro exI [of _ ?doc]) (simp add: a)
    next
      case (Audited ex v q)
      let ?doc = "auditResult now r imagePath ex v"
      let ?b1 = "writeJSON b (processedPath d (rowId r)) (ResultDoc ?doc)"
      have a: "?a = (Inr ?doc, addToProcessedIndex ?b1 d (rowId r))"
        using Inr Audited by (intro auditRecord_audited) simp
      have b1: "?b1 \<noteq> None" using bn by (simp add: writeJSON_None)
      have "validateExtraction (timeZone w) ex r vp = Inr v"
        using Inr Audited by (intro auditWithGemini_Audited [of w "b \<noteq> None" r vp ex v q]) simp
      then have 1: "doc_status ?doc \<in> knownStatuses"
        using validateExtraction_status auditResult_status by metis
      have 2: "readJSON (snd ?a) (processedPath d (rowId r)) = Some (ResultDoc ?doc)"
        using bn by (simp add: a readJSON_add result_paths_distinct readJSON_writeJSON)
      have 3: "set (ledger (snd ?a) d) = insert (rowId r) (set (ledger b d))"
        using ledger_add [OF b1, of d "rowId r"]
        by (simp add: a ledger_writeJSON path_facts(2))
      have 4: "readJSON (snd ?a) (failedPath d (rowId r)) = readJSON b (failedPath d (rowId r))"
        by (simp add: a readJSON_add result_paths_distinct readJSON_writeJSON)
      show ?thesis
        unfolding Inr Audited using bn 1 2 3 4
        by (intro exI [of _ ?doc]) (simp add: a)
    qed
  qed
next
  assume "\<forall>x \<in> set rs. 0 < maxRetries (ws x)"
  then show "\<exists>docs. fst (auditAllRecords ws now rs d b) = Inr docs
                \<and> map row_id docs = map rowId (fst (getUnprocessedRecords rs d b))"
    by (rule auditAllRecords_total)
qed
lemma failing400:
  "fst (auditWithGemini (failingWith (httpError 400 None)) True r vp) =
     Inl (Some (httpError 400 None))"
proof -
  let ?w = "failingWith (httpError 400 None)"
  have t: "tryBody ?w r vp 0 = Caught (httpError 400 None)"
    by (rule tryBody_throws) (simp_all add: failingWith_facts)
  have n: "\<not> isRetriable (httpError 400 None)"
    by (simp add: isRetriable_def httpError_def)
  have "attemptLoop ?w r vp 0 None [] = (Inl (Some (httpError 400 None)), [])"
    by (rule attemptLoop_caught_stop [OF _ t]) (simp_all add: failingWith_facts n)
  then show ?thesis by (simp add: auditWithGemini_def)
qed

lemma unreadable_gate:
  "fst (auditWithGemini unreadableImage True r vp) = Inr (RequiresManualReview 3 ''borrosa'')"
proof -
  have t: "tryBody unreadableImage r vp 0 = Return (RequiresManualReview 3 ''borrosa'')"
    by (simp add: tryBody_def unreadableImage_def)
  have "attemptLoop unreadableImage r vp 0 None [] =
        (Inr (RequiresManualReview 3 ''borrosa''), [])"
    by (rule attemptLoop_return [OF _ t]) (simp add: unreadableImage_def)
  then show ?thesis by (simp add: auditWithGemini_def)
qed

text \<open>The record A on an empty bucket: under an oracle that fails with a 400 it ends
  with the status \<open>error\<close>, stays out of the ledger and is unprocessed again; under a
  quality gate that finds the image unreadable it joins the ledger.\<close>

lemma auditRecord_ledger_sample:
  "doc_status (projr (fst (auditRecord (failingWith (httpError 400 None)) ''t''
       (sampleRecord ''A'') ''images/x.jpg'' ''2025/12/10'' [] (Some [])))) = ''error''
   \<and> ledger (snd (auditRecord (failingWith (httpError 400 None)) ''t''
       (sampleRecord ''A'') ''images/x.jpg'' ''2025/12/10'' [] (Some []))) ''2025/12/10'' = []
   \<and> sampleRecord ''A'' \<in> set (fst (getUnprocessedRecords [sampleRecord ''A''] ''2025/12/10''
       (snd (auditRecord (failingWith (httpError 400 None)) ''t''
          (sampleRecord ''A'') ''images/x.jpg'' ''2025/12/10'' [] (Some [])))))
   \<and> set (ledger (snd (auditRecord unreadableImage ''t''
       (sampleRecord ''A'') ''images/x.jpg'' ''2025/12/10'' [] (Some []))) ''2025/12/10'') = {''A''}"
proof -
  let ?d = "''2025/12/10''"
  let ?a = "auditRecord (failingWith (httpError 400 None)) ''t''
       (sampleRecord ''A'') ''images/x.jpg'' ?d [] (Some [])"
  let ?u = "auditRecord unreadableImage ''t''
       (sampleRecord ''A'') ''images/x.jpg'' ?d [] (Some [])"
  have m: "0 < maxRetries (failingWith (httpError 400 None))" "0 < maxRetries unreadableImage"
    by (simp_all add: failingWith_facts unreadableImage_def)
  have l0: "ledger (Some []) ?d = []" by (simp add: ledger_def readJSON_def)
  have p0: "fst (getProcessedRowIds (Some []) ?d) = []"
    by (simp add: getProcessedRowIds_fst readJSON_def listFiles_def)
  from auditRecord_ledger [where w = "failingWith (httpError 400 None)" and now = "''t''"
      and r = "sampleRecord ''A''" and imagePath = "''images/x.jpg''" and d = ?d and vp = "[]"
      and b = "Some []" and records = "[sampleRecord ''A'']" and rs = "[]"] m(1)
  obtain doc where 1: "fst ?a = Inr doc" "doc_status doc = ''error''"
      "ledger (snd ?a) ?d = ledger (Some []) ?d"
      "sampleRecord ''A'' \<in> set (fst (getUnprocessedRecords [sampleRecord ''A''] ?d (snd ?a)))"
    by (auto simp add: failing400 p0)
  from auditRecord_ledger [where w = unreadableImage and now = "''t''"
      and r = "sampleRecord ''A''" and imagePath = "''images/x.jpg''" and d = ?d and vp = "[]"
      and b = "Some []" and records = "[]" and rs = "[]"] m(2)
  have 2: "set (ledger (snd ?u) ?d) = insert (rowId (sampleRecord ''A'')) (set (ledger (Some []) ?d))"
    by (auto simp add: unreadable_gate)
  from 1 2 show ?thesis by (simp add: l0 sample_rowId)
qed

lemma auditWithGemini_no_attempt:
  "maxRetries w \<le> 0 \<Longrightarrow> auditWithGemini w True r vp = (Inl None, [])"
  by (simp add: auditWithGemini_def attemptLoop_exhausted)

lemma auditRecord_no_attempt:
  assumes "maxRetries w \<le> 0"
  shows "auditRecord w now r imagePath d vp (Some files) =
     (Inl (TypeError ''Cannot read properties of undefined (reading 'message')''), Some files)"
  using auditWithGemini_no_attempt [OF assms, of r vp] by (simp add: auditRecord_def)

lemma zeroRetries_bound: "maxRetries zeroRetries \<le> 0"
  by (simp add: zeroRetries_def)

text \<open>
  Claim C7. The claim says that when the processing of a record throws, the result with
  the status \<open>error\<close> is written under \<open>failed/\<close> and the error does not end the batch,
  and the \<open>catch\<close> of \<open>auditRecord\<close> is written to do so. With a retry bound of 0
  (\<open>GEMINI_MAX_RETRIES=0\<close>, or a value that does not read as a number) the loop of
  \<open>auditWithGemini\<close> makes no attempt and the \<open>throw lastError\<close> after it throws
  \<open>undefined\<close>; the \<open>catch\<close> of \<open>auditRecord\<close> reads \<open>error.message\<close> off it, which is a
  TypeError thrown from inside the \<open>catch\<close>. On an empty bucket, with an oracle that would
  answer every call with the sample extraction: \<open>auditRecord\<close> throws for the record A,
  returns no document and writes nothing, under \<open>failed/\<close> or elsewhere, and the batch of
  A and B ends with that error, leaving the bucket empty, B never looked at.
\<close>

theorem auditRecord_zero_retries:
  "auditWithGemini zeroRetries True (sampleRecord ''A'') [] = (Inl None, [])
   \<and> auditRecord zeroRetries ''t'' (sampleRecord ''A'') ''images/2025/12/10/foto1.jpg''
       ''2025/12/10'' [] (Some []) =
       (Inl (TypeError ''Cannot read properties of undefined (reading 'message')''), Some [])
   \<and> readJSON (snd (auditRecord zeroRetries ''t'' (sampleRecord ''A'')
         ''images/2025/12/10/foto1.jpg'' ''2025/12/10'' [] (Some [])))
       (failedPath ''2025/12/10'' ''A'') = None
   \<and> auditAllRecords (\<lambda>r. zeroRetries) ''t'' [sampleRecord ''A'', sampleRecord ''B'']
       ''2025/12/10'' (Some []) =
       (Inl (TypeError ''Cannot read properties of undefined (reading 'message')''), Some [])"
proof (intro conjI)
  let ?e = "TypeError ''Cannot read properties of undefined (reading 'message')''"
  let ?d = "''2025/12/10''"
  show "auditWithGemini zeroRetries True (sampleRecord ''A'') [] = (Inl None, [])"
    by (rule auditWithGemini_no_attempt [OF zeroRetries_bound])
  show a: "auditRecord zeroRetries ''t'' (sampleRecord ''A'') ''images/2025/12/10/foto1.jpg''
       ?d [] (Some []) = (Inl ?e, Some [])"
    by (rule auditRecord_no_attempt [OF zeroRetries_bound])
  show "readJSON (snd (auditRecord zeroRetries ''t'' (sampleRecord ''A'')
         ''images/2025/12/10/foto1.jpg'' ?d [] (Some [])))
       (failedPath ?d ''A'') = None"
    by (simp add: a readJSON_def)
  have u: "getUnprocessedRecords [sampleRecord ''A'', sampleRecord ''B''] ?d (Some []) =
           ([sampleRecord ''A'', sampleRecord ''B''], Some [])"
    by (simp add: getUnprocessedRecords_def getProcessedRowIds_def fileExists_def readJSON_def
        listFiles_def)
  have p: "imagePathOf ?d (sampleRecord ''A'') = ''images/2025/12/10/foto1.jpg''"
    by (simp add: imagePathOf_def sampleRecord_def)
  have v: "getValidPlacas (Some []) ?d = []"
    by (simp add: getValidPlacas_def fileExists_def)
  have e: "auditEach (\<lambda>r. zeroRetries) ''t'' ?d [] [sampleRecord ''A'', sampleRecord ''B'']
             (Some []) [] = (Inl ?e, Some [])"
    by (simp add: p a)
  show "auditAllRecords (\<lambda>r. zeroRetries) ''t'' [sampleRecord ''A'', sampleRecord ''B'']
       ?d (Some []) = (Inl ?e, Some [])"
    by (simp add: auditAllRecords_def u v e del: auditEach.simps)
qed

end
